theory Spec2Isabelle
  imports Complex_Main
begin

section \<open>Strings and exceptions\<close>

text \<open>
  Python strings are modelled as \<open>string\<close>; a character stands for one code point
  below 256, and \<open>length\<close> is Python's \<open>len\<close>.  Characters outside ASCII that occur
  in the messages of the source are written by their code point.
\<close>

definition digit_char :: "nat \<Rightarrow> char" where
  "digit_char d = char_of (48 + d)"

fun str_nat :: "nat \<Rightarrow> string" where
  "str_nat n = (if n < 10 then [digit_char n] else str_nat (n div 10) @ [digit_char (n mod 10)])"

declare str_nat.simps [simp del]

definition str_int :: "int \<Rightarrow> string" where
  "str_int i = (if i < 0 then CHR ''-'' # str_nat (nat (- i)) else str_nat (nat i))"

text \<open>\<open>str.isspace\<close> of Python on the code points below 256; \<open>str.strip()\<close> removes
  such characters at both ends.\<close>

definition isspace :: "char \<Rightarrow> bool" where
  "isspace c = ((of_char c :: nat) \<in> {9, 10, 11, 12, 13, 28, 29, 30, 31, 32, 133, 160})"

definition strip :: "string \<Rightarrow> string" where
  "strip s = rev (dropWhile isspace (rev (dropWhile isspace s)))"

text \<open>A string between single quotes, as \<open>str\<close> shows the key of a \<open>KeyError\<close> and as
  the messages of the client quote a file name.\<close>

definition quoted :: "string \<Rightarrow> string" where
  "quoted s = [char_of (39::nat)] @ s @ [char_of (39::nat)]"

text \<open>The exceptions of the image client (\<open>backends/comfyui.py\<close>): the two subclasses of
  \<open>ComfyUIError\<close> that the code raises, pydantic's \<open>ValidationError\<close>, and any other
  subclass of \<open>Exception\<close>, kept with its type name and message.\<close>

datatype exc =
    ComfyUIUnavailableError string
  | ComfyUIGenerationError string
  | ValidationError string
  | OtherException string string

fun str_exc :: "exc \<Rightarrow> string" where
  "str_exc (ComfyUIUnavailableError m) = m"
| "str_exc (ComfyUIGenerationError m) = m"
| "str_exc (ValidationError m) = m"
| "str_exc (OtherException t m) = m"

fun type_name :: "exc \<Rightarrow> string" where
  "type_name (ComfyUIUnavailableError m) = ''ComfyUIUnavailableError''"
| "type_name (ComfyUIGenerationError m) = ''ComfyUIGenerationError''"
| "type_name (ValidationError m) = ''ValidationError''"
| "type_name (OtherException t m) = t"


section \<open>Shared models (\<open>shared/models.py\<close>)\<close>

datatype AspectRatio = SQUARE | LANDSCAPE | PORTRAIT | PHOTO | WIDE | CUSTOM

datatype ImageFormat = PNG | JPEG | WEBP

datatype ResponseFormat = JSON | MARKDOWN

fun format_value :: "ImageFormat \<Rightarrow> string" where
  "format_value PNG = ''png''"
| "format_value JPEG = ''jpeg''"
| "format_value WEBP = ''webp''"

record GenerateImageInput =
  prompt :: string
  negative_prompt :: string
  aspect_ratio :: AspectRatio
  width :: "int option"
  height :: "int option"
  steps :: int
  guidance_scale :: real
  seed :: "int option"
  output_format :: ImageFormat
  batch_size :: int
  response_format :: ResponseFormat

record GeneratedImage =
  image_path :: string
  filename :: string
  img_width :: int
  img_height :: int
  format :: string
  img_seed :: int
  img_prompt :: string
  img_steps :: int
  img_guidance_scale :: real
  file_size_bytes :: nat
  generation_time_ms :: int

record GenerationResult =
  success :: bool
  images :: "GeneratedImage list"
  total_generated :: nat
  error :: "string option"

text \<open>\<open>ASPECT_RATIO_DIMENSIONS\<close>: a dict with no entry for \<open>CUSTOM\<close>.\<close>

fun ASPECT_RATIO_DIMENSIONS :: "AspectRatio \<Rightarrow> (int \<times> int) option" where
  "ASPECT_RATIO_DIMENSIONS SQUARE = Some (2048, 2048)"
| "ASPECT_RATIO_DIMENSIONS LANDSCAPE = Some (3840, 2160)"
| "ASPECT_RATIO_DIMENSIONS PORTRAIT = Some (2160, 3840)"
| "ASPECT_RATIO_DIMENSIONS PHOTO = Some (2560, 1920)"
| "ASPECT_RATIO_DIMENSIONS WIDE = Some (3840, 1600)"
| "ASPECT_RATIO_DIMENSIONS CUSTOM = None"

text \<open>Python's \<open>x or d\<close> on an optional integer: \<open>None\<close> and \<open>0\<close> are both falsy.\<close>

definition or_default :: "int option \<Rightarrow> int \<Rightarrow> int" where
  "or_default v d = (case v of None \<Rightarrow> d | Some x \<Rightarrow> if x = 0 then d else x)"

text \<open>\<open>resolve_dimensions\<close>; \<open>div\<close> on \<open>int\<close> is the floor division of Python's \<open>//\<close>.\<close>

definition resolve_dimensions ::
  "AspectRatio \<Rightarrow> int option \<Rightarrow> int option \<Rightarrow> int \<Rightarrow> int \<Rightarrow> int \<times> int" where
  "resolve_dimensions ar w_in h_in default_width default_height =
     (let (w, h) =
            (if ar = CUSTOM
             then (or_default w_in default_width, or_default h_in default_height)
             else (case ASPECT_RATIO_DIMENSIONS ar of
                     Some d \<Rightarrow> d
                   | None \<Rightarrow> (default_width, default_height)));
          w = (w div 64) * 64;
          h = (h div 64) * 64
      in (max w 64, max h 64))"


section \<open>Workflow template (\<open>build_flux_workflow\<close>)\<close>

text \<open>The node graph is a dict from node id to a dict with \<open>class_type\<close> and \<open>inputs\<close>;
  both are kept as association lists in the order the source writes them.  An input is a
  string, an integer, a float or a reference \<open>[node, slot]\<close> to another node's output.\<close>

datatype wf_value = WStr string | WInt int | WFloat real | WRef string nat

record wf_node =
  class_type :: string
  inputs :: "(string \<times> wf_value) list"

type_synonym workflow = "(string \<times> wf_node) list"

definition build_flux_workflow ::
  "string \<Rightarrow> string \<Rightarrow> int \<Rightarrow> int \<Rightarrow> int \<Rightarrow> real \<Rightarrow> int \<Rightarrow> string \<Rightarrow> string \<Rightarrow> workflow" where
  "build_flux_workflow prompt_text negative width_px height_px n_steps guidance seed_val checkpoint
       out_format =
     [(''1'', \<lparr>class_type = ''CheckpointLoaderSimple'',
              inputs = [(''ckpt_name'', WStr checkpoint)]\<rparr>),
      (''2'', \<lparr>class_type = ''CLIPTextEncode'',
              inputs = [(''text'', WStr prompt_text), (''clip'', WRef ''1'' 1)]\<rparr>),
      (''3'', \<lparr>class_type = ''CLIPTextEncode'',
              inputs = [(''text'', WStr negative), (''clip'', WRef ''1'' 1)]\<rparr>),
      (''4'', \<lparr>class_type = ''EmptyLatentImage'',
              inputs = [(''width'', WInt width_px), (''height'', WInt height_px),
                        (''batch_size'', WInt 1)]\<rparr>),
      (''5'', \<lparr>class_type = ''FluxGuidance'',
              inputs = [(''conditioning'', WRef ''2'' 0), (''guidance'', WFloat guidance)]\<rparr>),
      (''6'', \<lparr>class_type = ''KSampler'',
              inputs = [(''model'', WRef ''1'' 0), (''positive'', WRef ''5'' 0),
                        (''negative'', WRef ''3'' 0), (''latent_image'', WRef ''4'' 0),
                        (''seed'', WInt seed_val), (''steps'', WInt n_steps),
                        (''cfg'', WFloat 1), (''sampler_name'', WStr ''euler''),
                        (''scheduler'', WStr ''simple''), (''denoise'', WFloat 1)]\<rparr>),
      (''7'', \<lparr>class_type = ''VAEDecode'',
              inputs = [(''samples'', WRef ''6'' 0), (''vae'', WRef ''1'' 2)]\<rparr>),
      (''8'', \<lparr>class_type = ''SaveImage'',
              inputs = [(''images'', WRef ''7'' 0), (''filename_prefix'', WStr ''flux_mcp'')]\<rparr>)]"


section \<open>Polling the job history (\<open>ComfyUIClient._poll_until_done\<close>)\<close>

text \<open>
  The JSON of \<open>GET /history/{id}\<close>, with the keys the client reads; a key that may be
  missing is an \<open>option\<close>.  \<open>outputs\<close> is kept as an association list, since
  \<open>outputs.values()\<close> is read in order.
\<close>

datatype image_entry = ImageEntry (img_type: "string option") (img_filename: "string option")

datatype node_output = NodeOutput (node_images: "image_entry list option")

datatype job_status = JobStatus (status_error: "string option")

datatype job_data =
  JobData (status: "job_status option") (outputs: "(string \<times> node_output) list option")

type_synonym history = "(string \<times> job_data) list"

text \<open>What one HTTP call gives the client: a response that passes \<open>raise_for_status\<close>
  with its decoded body, an \<open>HTTPStatusError\<close> with the status code, or any other
  exception of the call (connection error, time-out, undecodable body).\<close>

datatype 'a reply = Ok 'a | HTTPStatusError nat | RequestError string string

definition POLL_INTERVAL_SEC :: int where
  "POLL_INTERVAL_SEC = 1"

text \<open>\<open>_extract_output_filenames\<close>: the inner and the outer loop; \<open>img["filename"]\<close>
  raises \<open>KeyError\<close> when the key is missing.\<close>

fun extract_images :: "image_entry list \<Rightarrow> string list \<Rightarrow> exc + string list" where
  "extract_images [] filenames = Inr filenames"
| "extract_images (img # rest) filenames =
     (if img_type img = Some ''output''
      then (case img_filename img of
              None \<Rightarrow> Inl (OtherException ''KeyError'' (quoted ''filename''))
            | Some f \<Rightarrow> extract_images rest (filenames @ [f]))
      else extract_images rest filenames)"

fun extract_nodes :: "(string \<times> node_output) list \<Rightarrow> string list \<Rightarrow> exc + string list" where
  "extract_nodes [] filenames = Inr filenames"
| "extract_nodes ((k, node) # rest) filenames =
     (case extract_images (case node_images node of None \<Rightarrow> [] | Some imgs \<Rightarrow> imgs) filenames of
        Inl e \<Rightarrow> Inl e
      | Inr filenames' \<Rightarrow> extract_nodes rest filenames')"

definition extract_output_filenames :: "job_data \<Rightarrow> exc + string list" where
  "extract_output_filenames job =
     extract_nodes (case outputs job of None \<Rightarrow> [] | Some outs \<Rightarrow> outs) []"

text \<open>The message of the error branch: \<open>"ComfyUI report\'o error: " + detail\<close>.\<close>

definition reported_error_msg :: "string \<Rightarrow> string" where
  "reported_error_msg detail = ''ComfyUI report'' @ [char_of (243::nat)] @ '' error: '' @ detail"

definition history_error_msg :: "nat \<Rightarrow> string" where
  "history_error_msg code = ''Error consultando historial de ComfyUI: HTTP '' @ str_nat code"

definition timeout_msg :: "string \<Rightarrow> int \<Rightarrow> string" where
  "timeout_msg prompt_id timeout =
     ''Timeout: el job '' @ prompt_id @ '' no complet'' @ [char_of (243::nat)] @ '' en ''
       @ str_int timeout @ ''s. ''
       @ ''Considera aumentar IMAGE_MCP_COMFYUI_TIMEOUT en tu .env''"

text \<open>One pass through the loop body after the sleep: what the body does with the reply.\<close>

datatype poll_step = Continue | Return "string list" | Raise exc

definition poll_once :: "string \<Rightarrow> history reply \<Rightarrow> poll_step" where
  "poll_once prompt_id r =
     (case r of
        HTTPStatusError code \<Rightarrow> Raise (ComfyUIGenerationError (history_error_msg code))
      | RequestError t m \<Rightarrow> Raise (OtherException t m)
      | Ok hist \<Rightarrow>
          (case map_of hist prompt_id of
             None \<Rightarrow> Continue
           | Some job \<Rightarrow>
               (case (case status job of None \<Rightarrow> None | Some s \<Rightarrow> status_error s) of
                  Some detail \<Rightarrow> Raise (ComfyUIGenerationError (reported_error_msg detail))
                | None \<Rightarrow>
                    (case extract_output_filenames job of
                       Inl e \<Rightarrow> Raise e
                     | Inr filenames \<Rightarrow> if filenames \<noteq> [] then Return filenames else Continue))))"

text \<open>The loop keeps the number of \<open>GET /history\<close> calls made and the seconds asked of
  \<open>asyncio.sleep\<close>.  The backend is the function from the index of the poll to its reply.\<close>

record poll_state =
  polls :: nat
  slept :: int

definition max_attempts :: "int \<Rightarrow> nat" where
  "max_attempts timeout = nat (max 1 (timeout div POLL_INTERVAL_SEC))"

fun poll_loop ::
  "string \<Rightarrow> (nat \<Rightarrow> history reply) \<Rightarrow> nat \<Rightarrow> poll_state \<Rightarrow> (exc + string list) option \<times> poll_state" where
  "poll_loop prompt_id backend 0 st = (None, st)"
| "poll_loop prompt_id backend (Suc n) st =
     (let st1 = st\<lparr>slept := slept st + POLL_INTERVAL_SEC\<rparr>;
          r = backend (polls st1);
          st2 = st1\<lparr>polls := polls st1 + 1\<rparr>
      in case poll_once prompt_id r of
           Continue \<Rightarrow> poll_loop prompt_id backend n st2
         | Return filenames \<Rightarrow> (Some (Inr filenames), st2)
         | Raise e \<Rightarrow> (Some (Inl e), st2))"

definition poll_until_done ::
  "int \<Rightarrow> string \<Rightarrow> (nat \<Rightarrow> history reply) \<Rightarrow> (exc + string list) \<times> poll_state" where
  "poll_until_done timeout prompt_id backend =
     (case poll_loop prompt_id backend (max_attempts timeout) \<lparr>polls = 0, slept = 0\<rparr> of
        (Some r, st) \<Rightarrow> (r, st)
      | (None, st) \<Rightarrow> (Inl (ComfyUIGenerationError (timeout_msg prompt_id timeout)), st))"


section \<open>The image client (\<open>ComfyUIClient\<close>)\<close>

record settings =
  comfyui_url :: string
  comfyui_timeout :: int
  output_dir :: string
  default_width :: int
  default_height :: int
  default_model :: string

text \<open>What the client changes outside itself: the files it has written (path to
  content), the job graphs it has posted to \<open>/prompt\<close>, in order, and the number of HTTP
  requests it has sent.\<close>

record world =
  fs :: "string \<rightharpoonup> string"
  submitted :: "workflow list"
  requests :: nat

datatype stats_reply = StatsStatus nat | StatsConnectError | StatsTimeout | StatsError string string

datatype enqueue_reply =
    Enqueued "string option"
  | EnqueueRejected nat string
  | EnqueueError string string

text \<open>The backend as one batch item meets it: the reply to the liveness probe, to the
  enqueue call, to the k-th history poll and to the j-th download, and the clock reading
  (milliseconds since the start of the batch) after the j-th download.\<close>

record job_env =
  stats :: stats_reply
  enqueue :: enqueue_reply
  history_at :: "nat \<Rightarrow> history reply"
  view :: "nat \<Rightarrow> string reply"
  elapsed_ms :: "nat \<Rightarrow> int"

definition is_available :: "stats_reply \<Rightarrow> exc + bool" where
  "is_available r =
     (case r of
        StatsStatus code \<Rightarrow> Inr (code = 200)
      | StatsConnectError \<Rightarrow> Inr False
      | StatsTimeout \<Rightarrow> Inr False
      | StatsError t m \<Rightarrow> Inl (OtherException t m))"

definition rstrip_slash :: "string \<Rightarrow> string" where
  "rstrip_slash s = rev (dropWhile (\<lambda>c. c = CHR ''/'') (rev s))"

definition unavailable_msg :: "string \<Rightarrow> string" where
  "unavailable_msg base_url =
     ''ComfyUI no responde en '' @ rstrip_slash base_url @ ''. ''
       @ ''Aseg'' @ [char_of (250::nat)] @ ''rate de iniciar ComfyUI con GPU: ''
       @ ''ejecuta scripts/run_comfyui_gpu.ps1 (ver COMFYUI_SETUP.md).''"

definition enqueue_error_msg :: "nat \<Rightarrow> string \<Rightarrow> string" where
  "enqueue_error_msg code body_text =
     ''Error al encolar workflow en ComfyUI (HTTP '' @ str_nat code @ ''): '' @ take 200 body_text"

text \<open>\<open>ComfyUIClient.generate\<close>: liveness check, enqueue, poll.\<close>

definition client_generate ::
  "settings \<Rightarrow> job_env \<Rightarrow> workflow \<Rightarrow> world \<Rightarrow> (exc + string list) \<times> world" where
  "client_generate cfg env graph w =
     (let w1 = w\<lparr>requests := requests w + 1\<rparr>
      in case is_available (stats env) of
           Inl e \<Rightarrow> (Inl e, w1)
         | Inr False \<Rightarrow> (Inl (ComfyUIUnavailableError (unavailable_msg (comfyui_url cfg))), w1)
         | Inr True \<Rightarrow>
             (let w2 = w1\<lparr>submitted := submitted w1 @ [graph], requests := requests w1 + 1\<rparr>
              in case enqueue env of
                   EnqueueRejected code body_text \<Rightarrow>
                     (Inl (ComfyUIGenerationError (enqueue_error_msg code body_text)), w2)
                 | EnqueueError t m \<Rightarrow> (Inl (OtherException t m), w2)
                 | Enqueued None \<Rightarrow> (Inl (OtherException ''KeyError'' (quoted ''prompt_id'')), w2)
                 | Enqueued (Some prompt_id) \<Rightarrow>
                     (case poll_until_done (comfyui_timeout cfg) prompt_id (history_at env) of
                        (r, ps) \<Rightarrow> (r, w2\<lparr>requests := requests w2 + polls ps\<rparr>))))"

text \<open>\<open>dest_dir / filename\<close> of pathlib (an absolute right operand replaces the left one)
  and \<open>Path.name\<close>, for paths without a trailing slash.\<close>

definition path_join :: "string \<Rightarrow> string \<Rightarrow> string" where
  "path_join dir name =
     (case name of
        [] \<Rightarrow> dir
      | c # cs \<Rightarrow> if c = CHR ''/'' then name else dir @ ''/'' @ name)"

definition path_name :: "string \<Rightarrow> string" where
  "path_name p = rev (takeWhile (\<lambda>c. c \<noteq> CHR ''/'') (rev p))"

definition download_error_msg :: "string \<Rightarrow> nat \<Rightarrow> string" where
  "download_error_msg name code =
     ''No se pudo descargar la imagen '' @ quoted name @ '': HTTP '' @ str_nat code"

text \<open>\<open>download_image\<close>: its \<open>output_format\<close> argument is never read, so it is left out.
  The file names a job returns are taken to be names of plain files under the output
  directory, which can be created and written: the errors of the operating system in
  \<open>mkdir\<close> and \<open>write_bytes\<close> are outside the model.\<close>

definition download_image :: "string \<Rightarrow> string reply \<Rightarrow> string \<Rightarrow> world \<Rightarrow> (exc + string) \<times> world" where
  "download_image dest_dir r name w =
     (let dest_path = path_join dest_dir name;
          w1 = w\<lparr>requests := requests w + 1\<rparr>
      in case r of
           HTTPStatusError code \<Rightarrow>
             (Inl (ComfyUIGenerationError (download_error_msg name code)), w1)
         | RequestError t m \<Rightarrow> (Inl (OtherException t m), w1)
         | Ok content \<Rightarrow> (Inr dest_path, w1\<lparr>fs := (fs w1)(dest_path \<mapsto> content)\<rparr>))"


section \<open>The orchestrator (\<open>run_generation\<close>)\<close>

text \<open>The inner loop \<open>for filename in filenames\<close>: download, then append a record.
  \<open>output_dir\<close> is taken as an absolute, resolved path, so that \<open>resolve()\<close> changes
  nothing.\<close>

fun download_all ::
  "settings \<Rightarrow> GenerateImageInput \<Rightarrow> int \<times> int \<Rightarrow> int \<Rightarrow> job_env \<Rightarrow> nat \<Rightarrow> string list
     \<Rightarrow> world \<Rightarrow> GeneratedImage list \<Rightarrow> exc option \<times> world \<times> GeneratedImage list" where
  "download_all cfg p dims batch_seed env j [] w generated_images = (None, w, generated_images)"
| "download_all cfg p dims batch_seed env j (name # rest) w generated_images =
     (case download_image (output_dir cfg) (view env j) name w of
        (Inl e, w1) \<Rightarrow> (Some e, w1, generated_images)
      | (Inr local_path, w1) \<Rightarrow>
          download_all cfg p dims batch_seed env (Suc j) rest w1
            (generated_images @
               [\<lparr>image_path = local_path, filename = path_name local_path,
                 img_width = fst dims, img_height = snd dims,
                 format = format_value (output_format p), img_seed = batch_seed,
                 img_prompt = prompt p, img_steps = steps p,
                 img_guidance_scale = guidance_scale p,
                 file_size_bytes = (case fs w1 local_path of None \<Rightarrow> 0 | Some c \<Rightarrow> length c),
                 generation_time_ms = elapsed_ms env j\<rparr>]))"

text \<open>The outer loop \<open>for i in range(batch_size)\<close>, over the list of the indices left.\<close>

fun batch_loop ::
  "settings \<Rightarrow> (nat \<Rightarrow> job_env) \<Rightarrow> GenerateImageInput \<Rightarrow> int \<times> int \<Rightarrow> int \<Rightarrow> nat list
     \<Rightarrow> world \<Rightarrow> GeneratedImage list \<Rightarrow> exc option \<times> world \<times> GeneratedImage list" where
  "batch_loop cfg backend p dims seed_val [] w generated_images = (None, w, generated_images)"
| "batch_loop cfg backend p dims seed_val (i # rest) w generated_images =
     (let batch_seed = seed_val + int i;
          workflow = build_flux_workflow (prompt p) (negative_prompt p) (fst dims) (snd dims)
                       (steps p) (guidance_scale p) batch_seed (default_model cfg)
                       (format_value (output_format p))
      in case client_generate cfg (backend i) workflow w of
           (Inl e, w1) \<Rightarrow> (Some e, w1, generated_images)
         | (Inr filenames, w1) \<Rightarrow>
             (case download_all cfg p dims batch_seed (backend i) 0 filenames w1 generated_images of
                (Some e, w2, imgs) \<Rightarrow> (Some e, w2, imgs)
              | (None, w2, imgs) \<Rightarrow> batch_loop cfg backend p dims seed_val rest w2 imgs))"

definition resolve_seed :: "GenerateImageInput \<Rightarrow> int \<Rightarrow> int" where
  "resolve_seed p random_seed = (case seed p of Some s \<Rightarrow> s | None \<Rightarrow> random_seed)"

definition request_dimensions :: "settings \<Rightarrow> GenerateImageInput \<Rightarrow> int \<times> int" where
  "request_dimensions cfg p =
     resolve_dimensions (aspect_ratio p) (width p) (height p) (default_width cfg) (default_height cfg)"

text \<open>The three ways out of the \<open>try\<close> block.\<close>

fun generation_result :: "exc option \<Rightarrow> GeneratedImage list \<Rightarrow> GenerationResult" where
  "generation_result None imgs =
     \<lparr>success = True, images = imgs, total_generated = length imgs, error = None\<rparr>"
| "generation_result (Some (ComfyUIUnavailableError m)) imgs =
     \<lparr>success = False, images = [], total_generated = 0, error = Some m\<rparr>"
| "generation_result (Some (ComfyUIGenerationError m)) imgs =
     \<lparr>success = False, images = [], total_generated = 0, error = Some m\<rparr>"
| "generation_result (Some e) imgs =
     \<lparr>success = False, images = [], total_generated = 0,
      error = Some (type_name e @ '': '' @ str_exc e)\<rparr>"

text \<open>\<open>run_generation\<close>; \<open>random_seed\<close> is the value \<open>random.randint(0, 2**32 - 1)\<close> would
  draw.\<close>

definition run_generation ::
  "settings \<Rightarrow> (nat \<Rightarrow> job_env) \<Rightarrow> int \<Rightarrow> GenerateImageInput \<Rightarrow> world \<Rightarrow> GenerationResult \<times> world" where
  "run_generation cfg backend random_seed p w =
     (case batch_loop cfg backend p (request_dimensions cfg p) (resolve_seed p random_seed)
             [0 ..< nat (batch_size p)] w [] of
        (r, w1, imgs) \<Rightarrow> (generation_result r imgs, w1))"


section \<open>The REST adapters (\<open>rest_api.py\<close>)\<close>

text \<open>What a handler gives back: a \<open>JSONResponse\<close> with its status code and body, or an
  exception that leaves the handler uncaught.\<close>

datatype 'b outcome = Response nat 'b | Unhandled exc

text \<open>Python's \<open>a or b or ""\<close> on optional strings: \<open>None\<close> and the empty string are
  falsy.\<close>

definition str_or :: "string option \<Rightarrow> string option \<Rightarrow> string \<Rightarrow> string" where
  "str_or a b d =
     (case a of
        Some (x # xs) \<Rightarrow> x # xs
      | _ \<Rightarrow> (case b of Some (y # ys) \<Rightarrow> y # ys | _ \<Rightarrow> d))"

subsection \<open>Validation of \<open>GenerateImageInput\<close>\<close>

text \<open>
  The constraints of the model's fields, as \<open>Field(...)\<close> declares them.  With
  \<open>str_strip_whitespace=True\<close> a string field is stripped first and its length is
  checked afterwards; the whitespace removed is the Unicode \<open>White_Space\<close> set, here
  on the code points below 256.
\<close>

definition is_white_space :: "char \<Rightarrow> bool" where
  "is_white_space c = ((of_char c :: nat) \<in> {9, 10, 11, 12, 13, 32, 133, 160})"

definition strip_whitespace :: "string \<Rightarrow> string" where
  "strip_whitespace s = rev (dropWhile is_white_space (rev (dropWhile is_white_space s)))"

definition opt_in_range :: "int option \<Rightarrow> int \<Rightarrow> int \<Rightarrow> bool" where
  "opt_in_range v lo hi = (case v of None \<Rightarrow> True | Some x \<Rightarrow> lo \<le> x \<and> x \<le> hi)"

definition validate_GenerateImageInput :: "GenerateImageInput \<Rightarrow> exc + GenerateImageInput" where
  "validate_GenerateImageInput raw =
     (let p = strip_whitespace (prompt raw);
          n = strip_whitespace (negative_prompt raw)
      in if length p < 3 \<or> 2000 < length p then Inl (ValidationError ''prompt'')
         else if 500 < length n then Inl (ValidationError ''negative_prompt'')
         else if \<not> opt_in_range (width raw) 256 4096 then Inl (ValidationError ''width'')
         else if \<not> opt_in_range (height raw) 256 4096 then Inl (ValidationError ''height'')
         else if steps raw < 1 \<or> 50 < steps raw then Inl (ValidationError ''steps'')
         else if guidance_scale raw < 0 \<or> 20 < guidance_scale raw
              then Inl (ValidationError ''guidance_scale'')
         else if \<not> opt_in_range (seed raw) 0 (2 ^ 32 - 1) then Inl (ValidationError ''seed'')
         else if batch_size raw < 1 \<or> 4 < batch_size raw then Inl (ValidationError ''batch_size'')
         else Inr (raw\<lparr>prompt := p, negative_prompt := n\<rparr>))"

subsection \<open>Image: \<open>POST /generate\<close>\<close>

text \<open>The JSON body with the keys the handler reads; \<open>None\<close> is a missing key.\<close>

record image_body =
  b_description :: "string option"
  b_prompt :: "string option"
  b_aspect_ratio :: "string option"
  b_width :: "int option"
  b_height :: "int option"
  b_steps :: "int option"
  b_guidance_scale :: "real option"

datatype image_json = ErrorJson string | ResultJson GenerationResult

fun json_success :: "image_json \<Rightarrow> bool" where
  "json_success (ErrorJson m) = False"
| "json_success (ResultJson r) = success r"

fun json_error :: "image_json \<Rightarrow> string option" where
  "json_error (ErrorJson m) = Some m"
| "json_error (ResultJson r) = error r"

definition parse_AspectRatio :: "string \<Rightarrow> AspectRatio option" where
  "parse_AspectRatio s =
     (if s = ''1:1'' then Some SQUARE
      else if s = ''16:9'' then Some LANDSCAPE
      else if s = ''9:16'' then Some PORTRAIT
      else if s = ''4:3'' then Some PHOTO
      else if s = ''21:9'' then Some WIDE
      else if s = ''custom'' then Some CUSTOM
      else None)"

definition image_min_msg :: string where
  "image_min_msg =
     ''Body debe incluir la descripcion de la imagen (min 3 caracteres). Ej: {''
       @ [char_of (34::nat)] @ ''description'' @ [char_of (34::nat)] @ '': ''
       @ [char_of (34::nat)] @ ''una manzana roja sobre mesa blanca'' @ [char_of (34::nat)] @ ''}''"

definition default_negative_prompt :: string where
  "default_negative_prompt = ''blurry, low quality, distorted, watermark, text''"

text \<open>The fields the handler passes to \<open>GenerateImageInput(...)\<close>, the rest at their
  declared defaults.\<close>

definition image_request_fields :: "string \<Rightarrow> image_body \<Rightarrow> GenerateImageInput" where
  "image_request_fields text body =
     \<lparr>prompt = take 2000 text,
      negative_prompt = default_negative_prompt,
      aspect_ratio =
        (case parse_AspectRatio
                (strip (case b_aspect_ratio body of
                          Some (c # cs) \<Rightarrow> c # cs
                        | _ \<Rightarrow> ''16:9'')) of
           Some a \<Rightarrow> a
         | None \<Rightarrow> LANDSCAPE),
      width = b_width body,
      height = b_height body,
      steps = (case b_steps body of Some n \<Rightarrow> n | None \<Rightarrow> 8),
      guidance_scale = (case b_guidance_scale body of Some g \<Rightarrow> g | None \<Rightarrow> 4),
      seed = None,
      output_format = PNG,
      batch_size = 1,
      response_format = JSON\<rparr>"

text \<open>The handler; \<open>None\<close> is a body that is not JSON.  The second component is the world
  after the call, unchanged when the orchestrator was not reached.\<close>

definition image_generate ::
  "settings \<Rightarrow> (nat \<Rightarrow> job_env) \<Rightarrow> int \<Rightarrow> image_body option \<Rightarrow> world \<Rightarrow> image_json outcome \<times> world" where
  "image_generate cfg backend random_seed request w =
     (case request of
        None \<Rightarrow> (Response 400 (ErrorJson ''Body JSON invalido''), w)
      | Some body \<Rightarrow>
          (let text = strip (str_or (b_description body) (b_prompt body) [])
           in if length text < 3 then (Response 400 (ErrorJson image_min_msg), w)
              else (case validate_GenerateImageInput (image_request_fields text body) of
                      Inl e \<Rightarrow> (Unhandled e, w)
                    | Inr params \<Rightarrow>
                        (case run_generation cfg backend random_seed params w of
                           (result, w1) \<Rightarrow> (Response 200 (ResultJson result), w1)))))"

subsection \<open>Audio: \<open>POST /generate\<close>\<close>

record audio_body =
  a_text :: "string option"
  a_prompt :: "string option"
  a_language :: "string option"
  a_language_id :: "string option"

record audio_out =
  wav_bytes :: string
  sample_rate :: nat
  wav_path :: string

record audio_json =
  au_success :: bool
  au_filename :: "string option"
  au_audio_path :: "string option"
  au_text_length :: "nat option"
  au_audio :: "string option"
  au_error :: "string option"

definition audio_min_msg :: string where
  "audio_min_msg = ''Body debe incluir 'text' o 'prompt' (min 1 caracter).''"

definition audio_error_json :: "string \<Rightarrow> audio_json" where
  "audio_error_json m =
     \<lparr>au_success = False, au_filename = None, au_audio_path = None, au_text_length = None,
      au_audio = None, au_error = Some m\<rparr>"

text \<open>The handler.  \<open>synth\<close> stands for \<open>generate_audio\<close> run in the executor: given the
  request body (from which the handler derives the language, the clamped sampling parameters
  and the reference clip) and the text, it returns the audio or raises; \<open>calls\<close> counts how
  often it was run.\<close>

definition audio_generate ::
  "(audio_body \<Rightarrow> string \<Rightarrow> exc + audio_out) \<Rightarrow> audio_body option \<Rightarrow> nat \<Rightarrow> audio_json outcome \<times> nat" where
  "audio_generate synth request calls =
     (case request of
        None \<Rightarrow> (Response 400 (audio_error_json ''Body JSON invalido''), calls)
      | Some body \<Rightarrow>
          (let text = strip (str_or (a_text body) (a_prompt body) [])
           in if length text < 1 then (Response 400 (audio_error_json audio_min_msg), calls)
              else (let text = (if 5000 < length text then take 5000 text else text)
                    in case synth body text of
                         Inl e \<Rightarrow> (Response 200 (audio_error_json (str_exc e)), calls + 1)
                       | Inr out \<Rightarrow>
                           (Response 200
                              \<lparr>au_success = True, au_filename = Some (path_name (wav_path out)),
                               au_audio_path = Some (wav_path out),
                               au_text_length = Some (length text),
                               au_audio = Some (wav_bytes out), au_error = None\<rparr>,
                            calls + 1))))"


section \<open>The lazily loaded TTS model (\<open>backends/chatterbox.py\<close>, \<open>get_model\<close>)\<close>

text \<open>
  The module globals \<open>_model\<close> and \<open>SUPPORTED_LANGUAGES\<close>, and a count of the calls of
  \<open>from_pretrained\<close>.  A loaded model is known by a number, its identity as an object.
\<close>

record globals =
  g_model :: "nat option"
  g_languages :: bool
  loads :: nat

text \<open>What \<open>get_model\<close> meets outside itself: whether the import of \<open>chatterbox\<close> works,
  the device \<open>_get_device()\<close> finds, the configured device, and \<open>from_pretrained\<close>, which
  for the device and the number of loads made before gives a new model or raises.\<close>

record tts_env =
  import_ok :: bool
  detected_device :: string
  settings_device :: string
  from_pretrained :: "string \<Rightarrow> nat \<Rightarrow> exc + nat"

definition choose_device :: "tts_env \<Rightarrow> string" where
  "choose_device env =
     (let device = detected_device env
      in if settings_device env \<in> {''cuda'', ''cpu'', ''mps''} \<and> settings_device env \<noteq> device
         then (if settings_device env = ''cuda'' \<and> device = ''cpu'' then device
               else settings_device env)
         else device)"

definition import_error_msg :: string where
  "import_error_msg =
     ''Instala chatterbox-tts: pip install chatterbox-tts. ''
       @ ''Revisa dependencias (torch, torchaudio).''"

text \<open>The body of \<open>get_model\<close> as the steps one caller takes, each reading or writing the
  globals once: the test of \<open>_model\<close>, the import, the call of \<open>from_pretrained\<close>, the
  assignment to \<open>_model\<close>, and \<open>return _model\<close>.  Nothing in the body takes a lock.\<close>

datatype pc = Entry | Importing | Loading | Storing nat | Returning | Returned "nat option" | Raised exc

fun thread_step :: "tts_env \<Rightarrow> pc \<Rightarrow> globals \<Rightarrow> pc \<times> globals" where
  "thread_step env Entry g =
     (case g_model g of Some m \<Rightarrow> (Returned (Some m), g) | None \<Rightarrow> (Importing, g))"
| "thread_step env Importing g =
     (if import_ok env then (Loading, g\<lparr>g_languages := True\<rparr>)
      else (Raised (OtherException ''RuntimeError'' import_error_msg), g))"
| "thread_step env Loading g =
     (case from_pretrained env (choose_device env) (loads g) of
        Inl e \<Rightarrow> (Raised e, g\<lparr>loads := loads g + 1\<rparr>)
      | Inr m \<Rightarrow> (Storing m, g\<lparr>loads := loads g + 1\<rparr>))"
| "thread_step env (Storing m) g = (Returning, g\<lparr>g_model := Some m\<rparr>)"
| "thread_step env Returning g = (Returned (g_model g), g)"
| "thread_step env (Returned r) g = (Returned r, g)"
| "thread_step env (Raised e) g = (Raised e, g)"

text \<open>One call of \<open>get_model\<close> with no other caller running: its five steps in a row.\<close>

definition get_model :: "tts_env \<Rightarrow> globals \<Rightarrow> pc \<times> globals" where
  "get_model env g = ((\<lambda>(c, g'). thread_step env c g') ^^ 5) (Entry, g)"

text \<open>Several callers (the worker threads of the executor): a schedule names, step by step,
  the caller that runs next.\<close>

fun run_schedule :: "tts_env \<Rightarrow> nat list \<Rightarrow> globals \<times> pc list \<Rightarrow> globals \<times> pc list" where
  "run_schedule env [] st = st"
| "run_schedule env (t # ts) (g, pcs) =
     (if t < length pcs
      then (case thread_step env (pcs ! t) g of
              (c, g') \<Rightarrow> run_schedule env ts (g', pcs[t := c]))
      else run_schedule env ts (g, pcs))"


section \<open>Describing a history reply\<close>

text \<open>The terms in which the properties of the polling loop are stated: the error field of a
  job entry, its artifacts tagged \<open>output\<close> in the order of the response, a reply that
  omits the job handle, and a reply that shows no terminal state (handle absent, or present
  with no error and no output artifact).\<close>

definition job_error :: "job_data \<Rightarrow> string option" where
  "job_error job = (case status job of None \<Rightarrow> None | Some s \<Rightarrow> status_error s)"

definition output_entries :: "job_data \<Rightarrow> image_entry list" where
  "output_entries job =
     filter (\<lambda>img. img_type img = Some ''output'')
       (concat (map (\<lambda>(k, node). case node_images node of None \<Rightarrow> [] | Some imgs \<Rightarrow> imgs)
                  (case outputs job of None \<Rightarrow> [] | Some outs \<Rightarrow> outs)))"

definition handle_absent :: "string \<Rightarrow> history reply \<Rightarrow> bool" where
  "handle_absent prompt_id r = (case r of Ok hist \<Rightarrow> map_of hist prompt_id = None | _ \<Rightarrow> False)"

definition pending_reply :: "string \<Rightarrow> history reply \<Rightarrow> bool" where
  "pending_reply prompt_id r =
     (case r of
        Ok hist \<Rightarrow>
          (case map_of hist prompt_id of
             None \<Rightarrow> True
           | Some job \<Rightarrow> job_error job = None \<and> output_entries job = [])
      | _ \<Rightarrow> False)"


section \<open>Describing a batch item\<close>

text \<open>The terms in which the properties of the orchestrator are stated: the world before
  anything was done, what \<open>client.generate\<close> returns for a batch item (it does not depend
  on the world), whether the j-th download of an item succeeds, whether an item completes
  (the job returns file names and each of them downloads), the file names of an item, and
  the job graph built for item \<open>i\<close>.\<close>

definition empty_world :: world where
  "empty_world = \<lparr>fs = Map.empty, submitted = [], requests = 0\<rparr>"

definition job_outcome :: "settings \<Rightarrow> job_env \<Rightarrow> exc + string list" where
  "job_outcome cfg env = fst (client_generate cfg env [] empty_world)"

definition download_ok :: "job_env \<Rightarrow> nat \<Rightarrow> bool" where
  "download_ok env j = (case view env j of Ok content \<Rightarrow> True | _ \<Rightarrow> False)"

definition item_succeeds :: "settings \<Rightarrow> job_env \<Rightarrow> bool" where
  "item_succeeds cfg env =
     (case job_outcome cfg env of
        Inr names \<Rightarrow> list_all (download_ok env) [0 ..< length names]
      | Inl e \<Rightarrow> False)"

text \<open>The exception an item raises, if it does: the one of its job, or else the one of the
  first download that fails, with the message of \<open>download_image\<close> written out.\<close>

fun download_failure :: "job_env \<Rightarrow> nat \<Rightarrow> string list \<Rightarrow> exc option" where
  "download_failure env j [] = None"
| "download_failure env j (name # rest) =
     (case view env j of
        Ok content \<Rightarrow> download_failure env (Suc j) rest
      | HTTPStatusError code \<Rightarrow>
          Some (ComfyUIGenerationError
                  (''No se pudo descargar la imagen '' @ [char_of (39::nat)] @ name
                     @ [char_of (39::nat)] @ '': HTTP '' @ str_nat code))
      | RequestError t m \<Rightarrow> Some (OtherException t m))"

definition item_failure :: "settings \<Rightarrow> job_env \<Rightarrow> exc option" where
  "item_failure cfg env =
     (case job_outcome cfg env of
        Inl e \<Rightarrow> Some e
      | Inr names \<Rightarrow> download_failure env 0 names)"

definition item_files :: "settings \<Rightarrow> job_env \<Rightarrow> string list" where
  "item_files cfg env = (case job_outcome cfg env of Inr names \<Rightarrow> names | Inl e \<Rightarrow> [])"

definition item_workflow :: "settings \<Rightarrow> GenerateImageInput \<Rightarrow> int \<Rightarrow> nat \<Rightarrow> workflow" where
  "item_workflow cfg p seed_val i =
     build_flux_workflow (prompt p) (negative_prompt p)
       (fst (request_dimensions cfg p)) (snd (request_dimensions cfg p))
       (steps p) (guidance_scale p) (seed_val + int i) (default_model cfg)
       (format_value (output_format p))"

section \<open>Example inputs\<close>

text \<open>A TTS environment in which the import works and every load gives a new model, the
  globals of a fresh process, and a request body whose description has 2001 characters: an
  \<open>a\<close>, 1999 spaces and a \<open>b\<close>.\<close>

definition example_tts_env :: tts_env where
  "example_tts_env =
     \<lparr>import_ok = True, detected_device = ''cpu'', settings_device = ''cpu'',
      from_pretrained = (\<lambda>device n. Inr n)\<rparr>"

definition fresh_globals :: globals where
  "fresh_globals = \<lparr>g_model = None, g_languages = False, loads = 0\<rparr>"

definition long_description :: string where
  "long_description = CHR ''a'' # replicate 1999 (CHR '' '') @ ''b''"

definition long_body :: image_body where
  "long_body =
     \<lparr>b_description = Some long_description, b_prompt = None, b_aspect_ratio = None,
      b_width = None, b_height = None, b_steps = None, b_guidance_scale = None\<rparr>"

text \<open>Settings, a request with batch size \<open>b\<close> and seed 7, and simulated backends: a job that
  is finished at the first poll with the given output files, a backend that does not answer
  the liveness probe, a batch whose first item completes and whose later items find the
  backend gone, a batch whose jobs each return one file, and one whose jobs each return
  two.\<close>

definition example_settings :: settings where
  "example_settings =
     \<lparr>comfyui_url = ''http://127.0.0.1:8188'', comfyui_timeout = 120, output_dir = ''/out'',
      default_width = 3840, default_height = 2160,
      default_model = ''flux1-schnell-fp8.safetensors''\<rparr>"

definition example_params :: "int \<Rightarrow> GenerateImageInput" where
  "example_params b =
     \<lparr>prompt = ''A red apple on a white table'', negative_prompt = default_negative_prompt,
      aspect_ratio = SQUARE, width = None, height = None, steps = 8, guidance_scale = 4,
      seed = Some 7, output_format = WEBP, batch_size = b, response_format = JSON\<rparr>"

definition finished_job :: "string list \<Rightarrow> job_env" where
  "finished_job names =
     \<lparr>stats = StatsStatus 200, enqueue = Enqueued (Some ''job''),
      history_at = (\<lambda>k. Ok [(''job'', JobData None
                     (Some [(''8'', NodeOutput
                        (Some (map (\<lambda>n. ImageEntry (Some ''output'') (Some n)) names)))]))]),
      view = (\<lambda>j. Ok ''data''), elapsed_ms = (\<lambda>j. 1000)\<rparr>"

definition unavailable_job :: job_env where
  "unavailable_job =
     \<lparr>stats = StatsConnectError, enqueue = Enqueued None, history_at = (\<lambda>k. Ok []),
      view = (\<lambda>j. HTTPStatusError 404), elapsed_ms = (\<lambda>j. 0)\<rparr>"

definition second_item_fails :: "nat \<Rightarrow> job_env" where
  "second_item_fails i = (if i = 0 then finished_job [''a.png''] else unavailable_job)"

definition one_file_backend :: "nat \<Rightarrow> job_env" where
  "one_file_backend i = finished_job [''a.png'']"

definition two_files_backend :: "nat \<Rightarrow> job_env" where
  "two_files_backend i = finished_job [''a.png'', ''b.png'']"

text \<open>A backend that is unavailable for every item, an image request and the parameters the
  adapter derives from it, an audio request, and a synthesizer that raises.\<close>

definition unavailable_backend :: "nat \<Rightarrow> job_env" where
  "unavailable_backend i = unavailable_job"

definition apple_body :: image_body where
  "apple_body =
     \<lparr>b_description = Some ''A red apple on a white table'', b_prompt = None,
      b_aspect_ratio = Some ''1:1'', b_width = None, b_height = None, b_steps = Some 8,
      b_guidance_scale = None\<rparr>"

definition apple_params :: GenerateImageInput where
  "apple_params =
     \<lparr>prompt = ''A red apple on a white table'', negative_prompt = default_negative_prompt,
      aspect_ratio = SQUARE, width = None, height = None, steps = 8, guidance_scale = 4,
      seed = None, output_format = PNG, batch_size = 1, response_format = JSON\<rparr>"

definition hello_body :: audio_body where
  "hello_body = \<lparr>a_text = Some ''hola'', a_prompt = None, a_language = None, a_language_id = None\<rparr>"

definition failing_synth :: "audio_body \<Rightarrow> string \<Rightarrow> exc + audio_out" where
  "failing_synth body text = Inl (OtherException ''RuntimeError'' ''model not loaded'')"


section \<open>Properties of the polling loop\<close>

lemma extract_images_filter:
  "\<forall>img \<in> set (filter (\<lambda>img. img_type img = Some ''output'') imgs). img_filename img \<noteq> None \<Longrightarrow>
   extract_images imgs acc =
     Inr (acc @ map (the \<circ> img_filename) (filter (\<lambda>img. img_type img = Some ''output'') imgs))"
  by (induction imgs arbitrary: acc) auto

lemma extract_nodes_filter:
  "\<forall>img \<in> set (filter (\<lambda>img. img_type img = Some ''output'')
        (concat (map (\<lambda>(k, node). case node_images node of None \<Rightarrow> [] | Some imgs \<Rightarrow> imgs) nodes))).
      img_filename img \<noteq> None \<Longrightarrow>
   extract_nodes nodes acc =
     Inr (acc @ map (the \<circ> img_filename) (filter (\<lambda>img. img_type img = Some ''output'')
        (concat (map (\<lambda>(k, node). case node_images node of None \<Rightarrow> [] | Some imgs \<Rightarrow> imgs) nodes))))"
proof (induction nodes arbitrary: acc)
  case Nil
  then show ?case by simp
next
  case (Cons a nodes)
  obtain k node where a: "a = (k, node)" by (cases a)
  from Cons.prems a have 1: "\<forall>img \<in> set (filter (\<lambda>img. img_type img = Some ''output'')
        (case node_images node of None \<Rightarrow> [] | Some imgs \<Rightarrow> imgs)). img_filename img \<noteq> None"
    by auto
  from Cons.prems a have 2: "\<forall>img \<in> set (filter (\<lambda>img. img_type img = Some ''output'')
        (concat (map (\<lambda>(k, node). case node_images node of None \<Rightarrow> [] | Some imgs \<Rightarrow> imgs) nodes))).
      img_filename img \<noteq> None"
    by auto
  show ?case
    using extract_images_filter[OF 1] Cons.IH[OF 2] a by simp
qed

lemma extract_output_filenames_entries:
  "\<forall>img \<in> set (output_entries job). img_filename img \<noteq> None \<Longrightarrow>
   extract_output_filenames job = Inr (map (the \<circ> img_filename) (output_entries job))"
  unfolding extract_output_filenames_def output_entries_def
  using extract_nodes_filter[of "case outputs job of None \<Rightarrow> [] | Some outs \<Rightarrow> outs" "[]"]
  by simp

lemma poll_once_pending: "pending_reply pid r \<Longrightarrow> poll_once pid r = Continue"
  using extract_output_filenames_entries
  by (auto simp: pending_reply_def poll_once_def job_error_def split: reply.splits option.splits)

lemma handle_absent_pending: "handle_absent pid r \<Longrightarrow> pending_reply pid r"
  by (auto simp: pending_reply_def handle_absent_def split: reply.splits)

lemma poll_loop_pending:
  "\<forall>k<n. pending_reply pid (backend (polls st + k)) \<Longrightarrow> n \<le> m \<Longrightarrow>
   poll_loop pid backend m st =
     poll_loop pid backend (m - n)
       (st\<lparr>polls := polls st + n, slept := slept st + int n * POLL_INTERVAL_SEC\<rparr>)"
proof (induction n arbitrary: st m)
  case 0
  then show ?case by simp
next
  case (Suc n)
  then obtain m' where m: "m = Suc m'" by (cases m) auto
  from Suc.prems have p0: "pending_reply pid (backend (polls st))" by force
  let ?st2 = "st\<lparr>slept := slept st + POLL_INTERVAL_SEC, polls := polls st + 1\<rparr>"
  have step: "poll_loop pid backend m st = poll_loop pid backend m' ?st2"
    using poll_once_pending[OF p0] m by (simp add: Let_def)
  have "\<forall>k<n. pending_reply pid (backend (polls ?st2 + k))"
    using Suc.prems(1) by auto
  moreover have "n \<le> m'" using Suc.prems(2) m by simp
  ultimately have "poll_loop pid backend m' ?st2 =
     poll_loop pid backend (m' - n)
       (?st2\<lparr>polls := polls ?st2 + n, slept := slept ?st2 + int n * POLL_INTERVAL_SEC\<rparr>)"
    by (rule Suc.IH)
  then show ?case using step m by (simp add: algebra_simps)
qed

text \<open>
  Claim C3.  For every configured timeout \<open>T\<close> (seconds; an integer, as the settings
  declare it) and a backend whose replies show no terminal state on any poll,
  \<open>_poll_until_done\<close> sleeps \<open>POLL_INTERVAL_SEC = 1\<close> second before each poll and
  raises the time-out error after exactly \<open>max(1, T)\<close> polls: \<open>polls\<close> counts the polls
  made and \<open>slept\<close> the seconds asked of \<open>asyncio.sleep\<close>, one per poll.  The error is the
  one whose message starts with \<open>Timeout:\<close> and names the job and the timeout, which no
  other path of the client raises.
\<close>

theorem timeout_after_max_attempts:
  assumes "\<forall>k < nat (max 1 T). pending_reply pid (backend k)"
  shows "poll_until_done T pid backend =
           (Inl (ComfyUIGenerationError
                   (''Timeout: el job '' @ pid @ '' no complet'' @ [char_of (243::nat)] @ '' en ''
                      @ str_int T @ ''s. ''
                      @ ''Considera aumentar IMAGE_MCP_COMFYUI_TIMEOUT en tu .env'')),
            \<lparr>polls = nat (max 1 T), slept = max 1 T\<rparr>)"
proof -
  have "poll_loop pid backend (max_attempts T) \<lparr>polls = 0, slept = 0\<rparr> =
        poll_loop pid backend 0 \<lparr>polls = nat (max 1 T), slept = max 1 T\<rparr>"
    using poll_loop_pending[of "max_attempts T" pid backend "\<lparr>polls = 0, slept = 0\<rparr>" "max_attempts T"] assms
    by (simp add: max_attempts_def POLL_INTERVAL_SEC_def)
  then show ?thesis by (simp add: poll_until_done_def timeout_msg_def)
qed

lemma str_int_three: "str_int 3 = ''3''"
  by code_simp

theorem timeout_after_max_attempts_witness:
  "poll_until_done 3 ''p'' (\<lambda>k. Ok []) =
     (Inl (ComfyUIGenerationError
             (''Timeout: el job p no complet'' @ [char_of (243::nat)]
                @ '' en 3s. Considera aumentar IMAGE_MCP_COMFYUI_TIMEOUT en tu .env'')),
      \<lparr>polls = 3, slept = 3\<rparr>)"
  using timeout_after_max_attempts [of 3 "''p''" "\<lambda>k. Ok []"]
  by (simp add: pending_reply_def str_int_three)

text \<open>
  Claim C2.  When the reply to a poll contains the job handle and its entry carries an error
  field (the polls before it having shown no terminal state), \<open>_poll_until_done\<close> raises
  the generation error with the reported reason right after that poll: if it is poll
  \<open>n + 1\<close>, exactly \<open>n + 1\<close> polls are made, so one poll when the error shows on the
  first, and the attempts left are not used.  The message of the error is the fixed prefix
  of the client followed by the detail of the error field.
\<close>

theorem failed_immediately:
  assumes "\<forall>k<n. pending_reply pid (backend k)"
    and "backend n = Ok hist" and "map_of hist pid = Some job"
    and "job_error job = Some detail" and "n < max_attempts T"
  shows "poll_until_done T pid backend =
           (Inl (ComfyUIGenerationError
                   (''ComfyUI report'' @ [char_of (243::nat)] @ '' error: '' @ detail)),
            \<lparr>polls = n + 1, slept = int n + 1\<rparr>)"
proof -
  obtain r where r: "max_attempts T - n = Suc r" using assms(5) by (cases "max_attempts T - n") auto
  have "poll_loop pid backend (max_attempts T) \<lparr>polls = 0, slept = 0\<rparr> =
        poll_loop pid backend (max_attempts T - n) \<lparr>polls = n, slept = int n\<rparr>"
    using poll_loop_pending[of n pid backend "\<lparr>polls = 0, slept = 0\<rparr>" "max_attempts T"] assms
    by (simp add: POLL_INTERVAL_SEC_def)
  moreover have "poll_once pid (backend n) =
      Raise (ComfyUIGenerationError
               (''ComfyUI report'' @ [char_of (243::nat)] @ '' error: '' @ detail))"
    using assms by (simp add: poll_once_def job_error_def reported_error_msg_def)
  ultimately show ?thesis using r
    by (simp add: poll_until_done_def Let_def POLL_INTERVAL_SEC_def)
qed

theorem failed_immediately_witness:
  "poll_until_done 120 ''p'' (\<lambda>k. Ok [(''p'', JobData (Some (JobStatus (Some ''boom''))) None)]) =
     (Inl (ComfyUIGenerationError (''ComfyUI report'' @ [char_of (243::nat)] @ '' error: boom'')),
      \<lparr>polls = 1, slept = 1\<rparr>)"
  using failed_immediately [of 0 "''p''"
      "\<lambda>k. Ok [(''p'', JobData (Some (JobStatus (Some ''boom''))) None)]"
      "[(''p'', JobData (Some (JobStatus (Some ''boom''))) None)]"
      "JobData (Some (JobStatus (Some ''boom''))) None" "''boom''" 120]
  by (simp add: job_error_def max_attempts_def POLL_INTERVAL_SEC_def)

text \<open>
  Claim C1.  For every \<open>N\<close>, if the replies to the first \<open>N\<close> polls omit the job handle
  and the reply to the next poll contains it with no error and at least one artifact tagged
  \<open>output\<close> (each carrying its file name), and \<open>N + 1\<close> is within \<open>max_attempts\<close>, then
  \<open>_poll_until_done\<close> returns exactly the file names of those artifacts, in order, after
  exactly \<open>N + 1\<close> polls: not earlier, and without using the attempts left.
\<close>

theorem succeeded_after_absent:
  assumes "\<forall>k<N. handle_absent pid (backend k)"
    and "backend N = Ok hist" and "map_of hist pid = Some job"
    and "job_error job = None"
    and "output_entries job \<noteq> []"
    and "\<forall>img \<in> set (output_entries job). img_filename img \<noteq> None"
    and "N + 1 \<le> max_attempts T"
  shows "poll_until_done T pid backend =
           (Inr (map (the \<circ> img_filename) (output_entries job)),
            \<lparr>polls = N + 1, slept = int N + 1\<rparr>)"
proof -
  obtain r where r: "max_attempts T - N = Suc r" using assms(7) by (cases "max_attempts T - N") auto
  have "\<forall>k<N. pending_reply pid (backend k)" using assms(1) handle_absent_pending by blast
  then have "poll_loop pid backend (max_attempts T) \<lparr>polls = 0, slept = 0\<rparr> =
        poll_loop pid backend (max_attempts T - N) \<lparr>polls = N, slept = int N\<rparr>"
    using poll_loop_pending[of N pid backend "\<lparr>polls = 0, slept = 0\<rparr>" "max_attempts T"] assms(7)
    by (simp add: POLL_INTERVAL_SEC_def)
  moreover have "poll_once pid (backend N) = Return (map (the \<circ> img_filename) (output_entries job))"
    using assms extract_output_filenames_entries[OF assms(6)]
    by (simp add: poll_once_def job_error_def)
  ultimately show ?thesis using r
    by (simp add: poll_until_done_def Let_def POLL_INTERVAL_SEC_def)
qed

theorem succeeded_after_absent_witness:
  "poll_until_done 10 ''p''
     (\<lambda>k. if k < 2 then Ok []
          else Ok [(''p'', JobData None
                     (Some [(''8'', NodeOutput (Some [ImageEntry (Some ''temp'') (Some ''t.png''),
                                                     ImageEntry (Some ''output'') (Some ''a.png'')]))]))]) =
     (Inr [''a.png''], \<lparr>polls = 3, slept = 3\<rparr>)"
  using succeeded_after_absent [of 2 "''p''"
      "\<lambda>k. if k < 2 then Ok []
          else Ok [(''p'', JobData None
                     (Some [(''8'', NodeOutput (Some [ImageEntry (Some ''temp'') (Some ''t.png''),
                                                     ImageEntry (Some ''output'') (Some ''a.png'')]))]))]"
      "[(''p'', JobData None
                     (Some [(''8'', NodeOutput (Some [ImageEntry (Some ''temp'') (Some ''t.png''),
                                                     ImageEntry (Some ''output'') (Some ''a.png'')]))]))]"
      "JobData None
                     (Some [(''8'', NodeOutput (Some [ImageEntry (Some ''temp'') (Some ''t.png''),
                                                     ImageEntry (Some ''output'') (Some ''a.png'')]))])" 10]
  by (simp add: job_error_def handle_absent_def output_entries_def max_attempts_def
        POLL_INTERVAL_SEC_def)


section \<open>Resolved dimensions\<close>

lemma resolve_dimensions_multiple_of_64:
  "resolve_dimensions ar w h dw dh = (rw, rh) \<Longrightarrow>
     rw mod 64 = 0 \<and> rh mod 64 = 0 \<and> 64 \<le> rw \<and> 64 \<le> rh"
  by (auto simp: resolve_dimensions_def Let_def max_def split: prod.splits if_splits)

lemma resolve_dimensions_custom:
  "w \<noteq> 0 \<Longrightarrow> h \<noteq> 0 \<Longrightarrow>
   resolve_dimensions CUSTOM (Some w) (Some h) dw dh = (max 64 (w div 64 * 64), max 64 (h div 64 * 64))"
  by (simp add: resolve_dimensions_def or_default_def max.commute)

lemma resolve_dimensions_table:
  "ar \<in> {SQUARE, PHOTO, WIDE} \<Longrightarrow>
   ASPECT_RATIO_DIMENSIONS ar = Some (resolve_dimensions ar w h dw dh)"
  by (auto simp: resolve_dimensions_def)

text \<open>
  Claim C5.  The resolved width and height are always multiples of 64 and at least 64, and a
  custom request with explicit width and height resolves to \<open>max(64, (input // 64) * 64)\<close>
  (the lemmas above).  For a ratio that is not custom the result is the table entry rounded
  down to a multiple of 64, which is the entry itself for \<open>1:1\<close>, \<open>4:3\<close> and
  \<open>21:9\<close> only: the entry of \<open>16:9\<close> is \<open>(3840, 2160)\<close>, and 2160 is not a multiple of
  64, so a landscape request resolves to \<open>3840 x 2112\<close> and not to its table entry.
\<close>

theorem resolve_dimensions_landscape:
  "resolve_dimensions LANDSCAPE None None 3840 2160 = (3840, 2112) \<and>
   ASPECT_RATIO_DIMENSIONS LANDSCAPE = Some (3840, 2160)"
  by (simp add: resolve_dimensions_def)

section \<open>The orchestrator\<close>

lemma client_generate_outcome: "fst (client_generate cfg env g w) = job_outcome cfg env"
  by (simp add: client_generate_def job_outcome_def Let_def
      split: sum.splits bool.splits enqueue_reply.splits option.splits prod.splits)

lemma client_generate_world:
  "client_generate cfg env g w = (r, w1) \<Longrightarrow>
     fs w1 = fs w \<and> length (submitted w1) \<le> Suc (length (submitted w)) \<and>
     (\<forall>names. r = Inr names \<longrightarrow> submitted w1 = submitted w @ [g])"
  by (auto simp: client_generate_def Let_def
      split: sum.splits bool.splits enqueue_reply.splits option.splits prod.splits)

lemma download_image_world:
  "download_image dir r name w = (res, w1) \<Longrightarrow>
     submitted w1 = submitted w \<and> dom (fs w) \<subseteq> dom (fs w1) \<and>
     (\<forall>path. res = Inr path \<longrightarrow> path = path_join dir name \<and> path \<in> dom (fs w1))"
  by (auto simp: download_image_def Let_def split: reply.splits)

lemma download_image_ok:
  "download_image dir (Ok content) name w =
     (Inr (path_join dir name), w\<lparr>requests := requests w + 1,
                                  fs := (fs w)(path_join dir name \<mapsto> content)\<rparr>)"
  by (simp add: download_image_def Let_def)

lemma download_image_fails:
  "(case r of Ok content \<Rightarrow> False | _ \<Rightarrow> True) \<Longrightarrow> \<exists>e w1. download_image dir r name w = (Inl e, w1)"
  by (auto simp: download_image_def Let_def split: reply.splits)

lemma download_all_general:
  "download_all cfg p dims bs env j names w acc = (r, w', imgs) \<Longrightarrow>
     submitted w' = submitted w \<and> dom (fs w) \<subseteq> dom (fs w') \<and>
     (\<exists>new. imgs = acc @ new \<and>
        (\<forall>img \<in> set new. img_seed img = bs \<and> format img = format_value (output_format p)))"
proof (induction names arbitrary: j w acc)
  case Nil
  then show ?case by simp
next
  case (Cons name rest)
  obtain res w1 where d: "download_image (output_dir cfg) (view env j) name w = (res, w1)"
    by (cases "download_image (output_dir cfg) (view env j) name w")
  note dw = download_image_world[OF d]
  show ?case
  proof (cases res)
    case (Inl e)
    with Cons.prems d dw show ?thesis by auto
  next
    case (Inr path)
    let ?img = "\<lparr>image_path = path, filename = path_name path,
                 img_width = fst dims, img_height = snd dims,
                 format = format_value (output_format p), img_seed = bs,
                 img_prompt = prompt p, img_steps = steps p,
                 img_guidance_scale = guidance_scale p,
                 file_size_bytes = (case fs w1 path of None \<Rightarrow> 0 | Some c \<Rightarrow> length c),
                 generation_time_ms = elapsed_ms env j\<rparr>"
    from Cons.prems d Inr
    have "download_all cfg p dims bs env (Suc j) rest w1 (acc @ [?img]) = (r, w', imgs)"
      by simp
    from Cons.IH[OF this] obtain new where
      n: "submitted w' = submitted w1" "dom (fs w1) \<subseteq> dom (fs w')" "imgs = (acc @ [?img]) @ new"
         "\<forall>img \<in> set new. img_seed img = bs \<and> format img = format_value (output_format p)"
      by blast
    have a: "imgs = acc @ (?img # new)" using n(3) by simp
    have b: "\<forall>img \<in> set (?img # new). img_seed img = bs \<and> format img = format_value (output_format p)"
      using n(4) by simp
    have c: "submitted w' = submitted w" using n(1) dw by simp
    have e: "dom (fs w) \<subseteq> dom (fs w')" using n(2) dw by blast
    from a b have "\<exists>new. imgs = acc @ new \<and>
        (\<forall>img \<in> set new. img_seed img = bs \<and> format img = format_value (output_format p))"
      by (rule_tac x = "?img # new" in exI) (rule conjI)
    with c e show ?thesis by simp
  qed
qed

lemma download_all_success:
  "\<forall>k < length names. download_ok env (j + k) \<Longrightarrow>
   \<exists>w' new. download_all cfg p dims bs env j names w acc = (None, w', acc @ new) \<and>
     map img_seed new = replicate (length names) bs \<and>
     (\<forall>name \<in> set names. path_join (output_dir cfg) name \<in> dom (fs w'))"
proof (induction names arbitrary: j w acc)
  case Nil
  then show ?case by simp
next
  case (Cons name rest)
  from Cons.prems have "download_ok env j" by force
  then obtain content where v: "view env j = Ok content"
    by (auto simp: download_ok_def split: reply.splits)
  let ?path = "path_join (output_dir cfg) name"
  let ?w1 = "w\<lparr>requests := requests w + 1, fs := (fs w)(?path \<mapsto> content)\<rparr>"
  let ?img = "\<lparr>image_path = ?path, filename = path_name ?path,
                 img_width = fst dims, img_height = snd dims,
                 format = format_value (output_format p), img_seed = bs,
                 img_prompt = prompt p, img_steps = steps p,
                 img_guidance_scale = guidance_scale p,
                 file_size_bytes = (case fs ?w1 ?path of None \<Rightarrow> 0 | Some c \<Rightarrow> length c),
                 generation_time_ms = elapsed_ms env j\<rparr>"
  have step: "download_all cfg p dims bs env j (name # rest) w acc =
              download_all cfg p dims bs env (Suc j) rest ?w1 (acc @ [?img])"
    using v by (simp add: download_image_ok)
  have "\<forall>k < length rest. download_ok env (Suc j + k)" using Cons.prems by force
  from Cons.IH[OF this, of ?w1 "acc @ [?img]"] obtain w' new where
    r: "download_all cfg p dims bs env (Suc j) rest ?w1 (acc @ [?img]) = (None, w', (acc @ [?img]) @ new)"
       "map img_seed new = replicate (length rest) bs"
       "\<forall>name \<in> set rest. path_join (output_dir cfg) name \<in> dom (fs w')"
    by blast
  have "dom (fs ?w1) \<subseteq> dom (fs w')" using download_all_general[OF r(1)] by blast
  then have "?path \<in> dom (fs w')" by auto
  then show ?case using step r
    by (intro exI[of _ w'] exI[of _ "?img # new"]) simp
qed

lemma download_all_failure:
  "\<not> (\<forall>k < length names. download_ok env (j + k)) \<Longrightarrow>
   \<exists>e w' imgs. download_all cfg p dims bs env j names w acc = (Some e, w', imgs)"
proof (induction names arbitrary: j w acc)
  case Nil
  then show ?case by simp
next
  case (Cons name rest)
  show ?case
  proof (cases "download_ok env j")
    case False
    then have "case view env j of Ok content \<Rightarrow> False | _ \<Rightarrow> True"
      by (auto simp: download_ok_def split: reply.splits)
    from download_image_fails[OF this, of "output_dir cfg" name w]
    obtain e w1 where "download_image (output_dir cfg) (view env j) name w = (Inl e, w1)"
      by blast
    then show ?thesis by simp
  next
    case True
    then obtain content where v: "view env j = Ok content"
      by (auto simp: download_ok_def split: reply.splits)
    have "\<not> (\<forall>k < length rest. download_ok env (Suc j + k))"
    proof
      assume a: "\<forall>k < length rest. download_ok env (Suc j + k)"
      have "\<forall>k < length (name # rest). download_ok env (j + k)"
      proof (intro allI impI)
        fix k assume "k < length (name # rest)"
        then show "download_ok env (j + k)" using a True by (cases k) auto
      qed
      with Cons.prems show False by simp
    qed
    from Cons.IH[OF this] show ?thesis using v by (simp add: download_image_ok)
  qed
qed


lemma item_succeeds_iff:
  "item_succeeds cfg env \<longleftrightarrow>
     (\<exists>names. job_outcome cfg env = Inr names \<and> (\<forall>k < length names. download_ok env (0 + k)))"
  by (auto simp: item_succeeds_def list_all_iff split: sum.splits)

lemma batch_loop_step_ok:
  assumes ok: "item_succeeds cfg (backend i)" and dims: "dims = request_dimensions cfg p"
  shows "\<exists>w2 new. batch_loop cfg backend p dims s (i # rest) w acc =
                     batch_loop cfg backend p dims s rest w2 (acc @ new) \<and>
           map img_seed new = replicate (length (item_files cfg (backend i))) (s + int i) \<and>
           submitted w2 = submitted w @ [item_workflow cfg p s i] \<and>
           dom (fs w) \<subseteq> dom (fs w2) \<and>
           (\<forall>name \<in> set (item_files cfg (backend i)). path_join (output_dir cfg) name \<in> dom (fs w2))"
proof -
  from ok obtain names where
    names: "job_outcome cfg (backend i) = Inr names"
    and dl: "\<forall>k < length names. download_ok (backend i) (0 + k)"
    unfolding item_succeeds_iff by blast
  have files: "item_files cfg (backend i) = names" using names by (simp add: item_files_def)
  obtain r w1 where g: "client_generate cfg (backend i) (item_workflow cfg p s i) w = (r, w1)"
    by (cases "client_generate cfg (backend i) (item_workflow cfg p s i) w")
  have r: "r = Inr names" using client_generate_outcome[of cfg "backend i" "item_workflow cfg p s i" w] g names
    by simp
  from client_generate_world[OF g] r
  have w1: "fs w1 = fs w" "submitted w1 = submitted w @ [item_workflow cfg p s i]" by auto
  from download_all_success[OF dl, of cfg p dims "s + int i" w1 acc]
  obtain w2 new where
    d: "download_all cfg p dims (s + int i) (backend i) 0 names w1 acc = (None, w2, acc @ new)"
       "map img_seed new = replicate (length names) (s + int i)"
       "\<forall>name \<in> set names. path_join (output_dir cfg) name \<in> dom (fs w2)"
    by blast
  from download_all_general[OF d(1)]
  have w2: "submitted w2 = submitted w1" "dom (fs w1) \<subseteq> dom (fs w2)" by auto
  have "batch_loop cfg backend p dims s (i # rest) w acc =
        batch_loop cfg backend p dims s rest w2 (acc @ new)"
    using g r d(1) dims by (simp add: item_workflow_def Let_def)
  then show ?thesis using d(2,3) w1 w2 files by auto
qed

lemma batch_loop_general:
  "batch_loop cfg backend p dims s idx w acc = (r, w', imgs) \<Longrightarrow>
     dom (fs w) \<subseteq> dom (fs w') \<and>
     length (submitted w') \<le> length (submitted w) + length idx \<and>
     (\<exists>new. imgs = acc @ new \<and>
        (\<forall>img \<in> set new. format img = format_value (output_format p)))"
proof (induction idx arbitrary: w acc)
  case Nil
  then show ?case by simp
next
  case (Cons i rest)
  let ?g = "build_flux_workflow (prompt p) (negative_prompt p) (fst dims) (snd dims)
              (steps p) (guidance_scale p) (s + int i) (default_model cfg)
              (format_value (output_format p))"
  obtain res w1 where g: "client_generate cfg (backend i) ?g w = (res, w1)"
    by (cases "client_generate cfg (backend i) ?g w")
  note gw = client_generate_world[OF g]
  show ?case
  proof (cases res)
    case (Inl e)
    with Cons.prems g gw show ?thesis by (auto simp: Let_def)
  next
    case (Inr names)
    obtain r2 w2 imgs2 where
      d: "download_all cfg p dims (s + int i) (backend i) 0 names w1 acc = (r2, w2, imgs2)"
      by (cases "download_all cfg p dims (s + int i) (backend i) 0 names w1 acc") auto
    from download_all_general[OF d] obtain new1 where
      dg: "submitted w2 = submitted w1" "dom (fs w1) \<subseteq> dom (fs w2)" "imgs2 = acc @ new1"
          "\<forall>img \<in> set new1. format img = format_value (output_format p)"
      by blast
    show ?thesis
    proof (cases r2)
      case (Some e)
      with Cons.prems g Inr d have "w' = w2" "imgs = imgs2" by (auto simp: Let_def)
      then show ?thesis using dg gw by auto
    next
      case None
      with Cons.prems g Inr d
      have "batch_loop cfg backend p dims s rest w2 imgs2 = (r, w', imgs)" by (simp add: Let_def)
      from Cons.IH[OF this] obtain new2 where
        ih: "dom (fs w2) \<subseteq> dom (fs w')" "length (submitted w') \<le> length (submitted w2) + length rest"
            "imgs = imgs2 @ new2" "\<forall>img \<in> set new2. format img = format_value (output_format p)"
        by blast
      have a: "imgs = acc @ (new1 @ new2)" using ih(3) dg(3) by simp
      have b: "\<forall>img \<in> set (new1 @ new2). format img = format_value (output_format p)"
        using ih(4) dg(4) by auto
      have c: "dom (fs w) \<subseteq> dom (fs w')" using ih(1) dg(2) gw by auto
      have e: "length (submitted w') \<le> length (submitted w) + length (i # rest)"
        using ih(2) dg(1) gw by auto
      from a b have "\<exists>new. imgs = acc @ new \<and>
          (\<forall>img \<in> set new. format img = format_value (output_format p))"
        by (rule_tac x = "new1 @ new2" in exI) (rule conjI)
      with c e show ?thesis by simp
    qed
  qed
qed

lemma batch_loop_success:
  assumes "\<forall>i \<in> set idx. item_succeeds cfg (backend i)" and "dims = request_dimensions cfg p"
  shows "\<exists>w' new. batch_loop cfg backend p dims s idx w acc = (None, w', acc @ new) \<and>
           map img_seed new =
             concat (map (\<lambda>i. replicate (length (item_files cfg (backend i))) (s + int i)) idx) \<and>
           submitted w' = submitted w @ map (item_workflow cfg p s) idx"
  using assms
proof (induction idx arbitrary: w acc)
  case Nil
  then show ?case by simp
next
  case (Cons i rest)
  from Cons.prems have ok: "item_succeeds cfg (backend i)" by simp
  from batch_loop_step_ok[where backend = backend and i = i and rest = rest and w = w
        and acc = acc and s = s, OF ok Cons.prems(2)]
  obtain w2 new1 where
    st: "batch_loop cfg backend p dims s (i # rest) w acc =
           batch_loop cfg backend p dims s rest w2 (acc @ new1)"
        "map img_seed new1 = replicate (length (item_files cfg (backend i))) (s + int i)"
        "submitted w2 = submitted w @ [item_workflow cfg p s i]"
    by blast
  from Cons.prems have "\<forall>i \<in> set rest. item_succeeds cfg (backend i)" by simp
  from Cons.IH[OF this Cons.prems(2), of w2 "acc @ new1"]
  obtain w' new2 where
    ih: "batch_loop cfg backend p dims s rest w2 (acc @ new1) = (None, w', (acc @ new1) @ new2)"
        "map img_seed new2 =
           concat (map (\<lambda>i. replicate (length (item_files cfg (backend i))) (s + int i)) rest)"
        "submitted w' = submitted w2 @ map (item_workflow cfg p s) rest"
    by blast
  have "batch_loop cfg backend p dims s (i # rest) w acc = (None, w', acc @ (new1 @ new2))"
    using st(1) ih(1) by simp
  moreover have "map img_seed (new1 @ new2) =
      concat (map (\<lambda>i. replicate (length (item_files cfg (backend i))) (s + int i)) (i # rest))"
    using st(2) ih(2) by simp
  moreover have "submitted w' = submitted w @ map (item_workflow cfg p s) (i # rest)"
    using st(3) ih(3) by simp
  ultimately show ?case by blast
qed

lemma download_all_result:
  "download_all cfg p dims bs env j names w acc = (r, w', imgs) \<Longrightarrow>
     r = download_failure env j names"
  by (induction names arbitrary: j w acc)
     (auto simp: download_image_def Let_def download_error_msg_def quoted_def split: reply.splits)

lemma download_failure_None:
  "download_failure env j names = None \<longleftrightarrow> (\<forall>k < length names. download_ok env (j + k))"
proof (induction names arbitrary: j)
  case Nil
  then show ?case by simp
next
  case (Cons name rest)
  have shift: "(\<forall>k < length (name # rest). download_ok env (j + k)) \<longleftrightarrow>
      download_ok env j \<and> (\<forall>k < length rest. download_ok env (Suc j + k))"
  proof
    assume a: "\<forall>k < length (name # rest). download_ok env (j + k)"
    have "download_ok env j" using a by force
    moreover have "\<forall>k < length rest. download_ok env (Suc j + k)" using a by force
    ultimately show "download_ok env j \<and> (\<forall>k < length rest. download_ok env (Suc j + k))" ..
  next
    assume a: "download_ok env j \<and> (\<forall>k < length rest. download_ok env (Suc j + k))"
    show "\<forall>k < length (name # rest). download_ok env (j + k)"
    proof (intro allI impI)
      fix k assume "k < length (name # rest)"
      then show "download_ok env (j + k)" using a by (cases k) auto
    qed
  qed
  show ?case
    unfolding shift using Cons.IH[of "Suc j"]
    by (auto simp: download_ok_def split: reply.splits)
qed

lemma item_failure_iff: "item_succeeds cfg env \<longleftrightarrow> item_failure cfg env = None"
  using download_failure_None[of env 0]
  by (auto simp: item_succeeds_iff item_failure_def split: sum.splits)

lemma job_outcome_unavailable:
  "stats env = StatsConnectError \<or> stats env = StatsTimeout \<or>
     (\<exists>code. stats env = StatsStatus code \<and> code \<noteq> 200) \<Longrightarrow>
   job_outcome cfg env =
     Inl (ComfyUIUnavailableError
            (''ComfyUI no responde en '' @ rstrip_slash (comfyui_url cfg) @ ''. ''
               @ ''Aseg'' @ [char_of (250::nat)] @ ''rate de iniciar ComfyUI con GPU: ''
               @ ''ejecuta scripts/run_comfyui_gpu.ps1 (ver COMFYUI_SETUP.md).''))"
  by (auto simp: job_outcome_def client_generate_def is_available_def unavailable_msg_def Let_def)

lemma job_outcome_rejected:
  "stats env = StatsStatus 200 \<Longrightarrow> enqueue env = EnqueueRejected code body_text \<Longrightarrow>
   job_outcome cfg env =
     Inl (ComfyUIGenerationError
            (''Error al encolar workflow en ComfyUI (HTTP '' @ str_nat code @ ''): ''
               @ take 200 body_text))"
  by (simp add: job_outcome_def client_generate_def is_available_def enqueue_error_msg_def Let_def)

lemma batch_loop_item_raises:
  assumes "item_failure cfg (backend k) = Some e"
  shows "\<exists>w' imgs. batch_loop cfg backend p dims s (k # post) w acc = (Some e, w', imgs) \<and>
           dom (fs w) \<subseteq> dom (fs w') \<and> length (submitted w') \<le> length (submitted w) + 1"
proof -
  let ?g = "build_flux_workflow (prompt p) (negative_prompt p) (fst dims) (snd dims)
              (steps p) (guidance_scale p) (s + int k) (default_model cfg)
              (format_value (output_format p))"
  obtain res w1 where g: "client_generate cfg (backend k) ?g w = (res, w1)"
    by (cases "client_generate cfg (backend k) ?g w")
  note gw = client_generate_world[OF g]
  have res: "res = job_outcome cfg (backend k)"
    using client_generate_outcome[of cfg "backend k" ?g w] g by simp
  show ?thesis
  proof (cases res)
    case (Inl e')
    have "job_outcome cfg (backend k) = Inl e'" using res Inl by simp
    with assms have "e' = e" by (simp add: item_failure_def)
    with Inl have "batch_loop cfg backend p dims s (k # post) w acc = (Some e, w1, acc)"
      using g by (simp add: Let_def)
    then show ?thesis using gw by auto
  next
    case (Inr names)
    have "job_outcome cfg (backend k) = Inr names" using res Inr by simp
    with assms have f: "download_failure (backend k) 0 names = Some e"
      by (simp add: item_failure_def)
    obtain r2 w2 imgs where
      d: "download_all cfg p dims (s + int k) (backend k) 0 names w1 acc = (r2, w2, imgs)"
      by (cases "download_all cfg p dims (s + int k) (backend k) 0 names w1 acc") auto
    from download_all_result[OF d] f have r2: "r2 = Some e" by simp
    from download_all_general[OF d]
    have dg: "submitted w2 = submitted w1" "dom (fs w1) \<subseteq> dom (fs w2)" by auto
    have "batch_loop cfg backend p dims s (k # post) w acc = (Some e, w2, imgs)"
      using g Inr d r2 by (simp add: Let_def)
    then show ?thesis using gw dg by auto
  qed
qed

lemma batch_loop_failure:
  assumes "\<forall>i \<in> set pre. item_succeeds cfg (backend i)" and "item_failure cfg (backend k) = Some e"
    and "dims = request_dimensions cfg p"
  shows "\<exists>w' imgs. batch_loop cfg backend p dims s (pre @ k # post) w acc = (Some e, w', imgs) \<and>
           dom (fs w) \<subseteq> dom (fs w') \<and>
           (\<forall>i \<in> set pre. \<forall>name \<in> set (item_files cfg (backend i)).
               path_join (output_dir cfg) name \<in> dom (fs w')) \<and>
           length (submitted w') \<le> length (submitted w) + length pre + 1"
  using assms
proof (induction pre arbitrary: w acc)
  case Nil
  from batch_loop_item_raises[where backend = backend and k = k and p = p and dims = dims
        and s = s and post = post and w = w and acc = acc, OF Nil.prems(2)]
  show ?case by auto
next
  case (Cons i rest)
  from Cons.prems have ok: "item_succeeds cfg (backend i)" by simp
  from batch_loop_step_ok[where backend = backend and i = i and rest = "rest @ k # post"
        and w = w and acc = acc and s = s, OF ok Cons.prems(3)]
  obtain w2 new1 where
    st: "batch_loop cfg backend p dims s (i # rest @ k # post) w acc =
           batch_loop cfg backend p dims s (rest @ k # post) w2 (acc @ new1)"
        "submitted w2 = submitted w @ [item_workflow cfg p s i]"
        "dom (fs w) \<subseteq> dom (fs w2)"
        "\<forall>name \<in> set (item_files cfg (backend i)). path_join (output_dir cfg) name \<in> dom (fs w2)"
    by blast
  from Cons.prems have "\<forall>i \<in> set rest. item_succeeds cfg (backend i)" by simp
  from Cons.IH[OF this Cons.prems(2,3), of w2 "acc @ new1"]
  obtain w' imgs where
    ih: "batch_loop cfg backend p dims s (rest @ k # post) w2 (acc @ new1) = (Some e, w', imgs)"
        "dom (fs w2) \<subseteq> dom (fs w')"
        "\<forall>i \<in> set rest. \<forall>name \<in> set (item_files cfg (backend i)).
               path_join (output_dir cfg) name \<in> dom (fs w')"
        "length (submitted w') \<le> length (submitted w2) + length rest + 1"
    by blast
  have 1: "batch_loop cfg backend p dims s ((i # rest) @ k # post) w acc = (Some e, w', imgs)"
    using st(1) ih(1) by simp
  have 2: "dom (fs w) \<subseteq> dom (fs w')" using st(3) ih(2) by blast
  have 3: "\<forall>i' \<in> set (i # rest). \<forall>name \<in> set (item_files cfg (backend i')).
               path_join (output_dir cfg) name \<in> dom (fs w')"
    using st(4) ih(2,3) by auto
  have 4: "length (submitted w') \<le> length (submitted w) + length (i # rest) + 1"
    using st(2) ih(4) by simp
  from 1 2 3 4 show ?case by blast
qed

lemma poll_until_done_first:
  "poll_once pid (backend 0) = Return names \<Longrightarrow>
   poll_until_done T pid backend = (Inr names, \<lparr>polls = 1, slept = 1\<rparr>)"
proof -
  assume a: "poll_once pid (backend 0) = Return names"
  obtain m where m: "max_attempts T = Suc m"
    by (cases "max_attempts T") (auto simp: max_attempts_def POLL_INTERVAL_SEC_def)
  show ?thesis using a by (simp add: poll_until_done_def m Let_def POLL_INTERVAL_SEC_def)
qed

lemma output_entries_finished:
  "output_entries (JobData None (Some [(''8'', NodeOutput
       (Some (map (\<lambda>n. ImageEntry (Some ''output'') (Some n)) names)))])) =
     map (\<lambda>n. ImageEntry (Some ''output'') (Some n)) names"
  by (simp add: output_entries_def filter_map comp_def)

lemma poll_once_finished:
  "names \<noteq> [] \<Longrightarrow>
   poll_once ''job'' (history_at (finished_job names) k) = Return names"
  using extract_output_filenames_entries[of "JobData None (Some [(''8'', NodeOutput
       (Some (map (\<lambda>n. ImageEntry (Some ''output'') (Some n)) names)))])"]
  by (simp add: poll_once_def finished_job_def output_entries_finished comp_def)

lemma client_generate_finished:
  assumes "names \<noteq> []"
  shows "client_generate example_settings (finished_job names) g w =
     (Inr names, w\<lparr>requests := requests w + 3, submitted := submitted w @ [g]\<rparr>)"
proof -
  have "poll_once ''job'' (history_at (finished_job names) 0) = Return names"
    using assms by (rule poll_once_finished)
  then have "poll_until_done 120 ''job'' (history_at (finished_job names)) =
      (Inr names, \<lparr>polls = 1, slept = 1\<rparr>)"
    by (rule poll_until_done_first)
  moreover have "stats (finished_job names) = StatsStatus 200"
    and "enqueue (finished_job names) = Enqueued (Some ''job'')"
    by (simp_all add: finished_job_def)
  ultimately show ?thesis
    by (simp add: client_generate_def is_available_def Let_def example_settings_def)
qed

lemma client_generate_unavailable:
  "client_generate cfg unavailable_job g w =
     (Inl (ComfyUIUnavailableError (unavailable_msg (comfyui_url cfg))), w\<lparr>requests := requests w + 1\<rparr>)"
  by (simp add: client_generate_def is_available_def Let_def unavailable_job_def)

lemma item_succeeds_finished: "names \<noteq> [] \<Longrightarrow> item_succeeds example_settings (finished_job names)"
  by (simp add: item_succeeds_def job_outcome_def client_generate_finished list_all_iff download_ok_def)
     (simp add: finished_job_def)

lemma item_files_finished: "names \<noteq> [] \<Longrightarrow> item_files example_settings (finished_job names) = names"
  by (simp add: item_files_def job_outcome_def client_generate_finished)

lemma item_fails_unavailable: "\<not> item_succeeds cfg unavailable_job"
  by (simp add: item_succeeds_def job_outcome_def client_generate_unavailable)

lemma view_finished: "view (finished_job names) j = Ok ''data''"
  by (simp add: finished_job_def)

text \<open>
  Claim C4 as stated fails in its last part: when an item fails after an earlier item was
  downloaded, the file stays on disk, but the result of \<open>run_generation\<close> carries an empty
  list of images, so the partial outcome is not reported in it.
\<close>

theorem failed_batch_reports_no_images:
  "images (fst (run_generation example_settings second_item_fails 0 (example_params 2) empty_world)) = [] \<and>
   success (fst (run_generation example_settings second_item_fails 0 (example_params 2) empty_world)) = False \<and>
   fs (snd (run_generation example_settings second_item_fails 0 (example_params 2) empty_world)) ''/out/a.png''
     = Some ''data''"
  by (simp add: run_generation_def example_params_def second_item_fails_def upt_rec
      client_generate_finished client_generate_unavailable view_finished download_image_ok
      path_join_def Let_def)
     (simp add: example_settings_def empty_world_def)

text \<open>
  Claim C6 as stated fails where a job returns more than one output artifact: a batch of
  size 1 whose job returns two files gives two records, both with the base seed.
\<close>

theorem two_files_one_seed:
  "map img_seed
     (images (fst (run_generation example_settings two_files_backend 0 (example_params 1) empty_world)))
     = [7, 7]"
  by (simp add: run_generation_def example_params_def two_files_backend_def upt_rec
      client_generate_finished view_finished download_image_ok resolve_seed_def Let_def)


lemma upt_split: "k < b \<Longrightarrow> [0 ..< b] = [0 ..< k] @ k # [Suc k ..< b]"
  by (metis less_imp_le_nat upt_add_eq_append upt_conv_Cons zero_le le_add_diff_inverse)

lemma generation_result_error:
  "generation_result (Some e) imgs =
     \<lparr>success = False, images = [], total_generated = 0,
      error = Some (case e of
                      ComfyUIUnavailableError m \<Rightarrow> m
                    | ComfyUIGenerationError m \<Rightarrow> m
                    | _ \<Rightarrow> type_name e @ '': '' @ str_exc e)\<rparr>"
  by (cases e) simp_all

lemma concat_replicate_one:
  "\<forall>i \<in> set xs. f i = (1::nat) \<Longrightarrow> concat (map (\<lambda>i. replicate (f i) (g i)) xs) = map g xs"
  by (induction xs) simp_all

text \<open>
  Claim C4, as amended.  If some item of the batch fails, raising the exception \<open>e\<close> (the
  one of its job, or the one of its first failing download), after the earlier items
  completed, \<open>run_generation\<close> stops there: the result has \<open>success = false\<close>, no images,
  \<open>total_generated = 0\<close> and as its error the message of \<open>e\<close> (for an exception that is
  not one of the client's, the message prefixed with the name of its type); the files
  downloaded for the earlier items are still on disk; and no job of a later item was
  submitted (at most \<open>k + 1\<close> graphs were posted when item \<open>k\<close> is the one that fails).
\<close>

theorem failed_item_aborts_batch:
  assumes "\<forall>i < k. item_succeeds cfg (backend i)"
    and "item_failure cfg (backend k) = Some e"
    and "k < nat (batch_size p)"
  shows "\<exists>w'. run_generation cfg backend random_seed p w =
            (\<lparr>success = False, images = [], total_generated = 0,
              error = Some (case e of
                              ComfyUIUnavailableError m \<Rightarrow> m
                            | ComfyUIGenerationError m \<Rightarrow> m
                            | _ \<Rightarrow> type_name e @ '': '' @ str_exc e)\<rparr>, w') \<and>
          (\<forall>i < k. \<forall>name \<in> set (item_files cfg (backend i)).
               path_join (output_dir cfg) name \<in> dom (fs w')) \<and>
          length (submitted w') \<le> length (submitted w) + k + 1"
proof -
  have split: "[0 ..< nat (batch_size p)] = [0 ..< k] @ k # [Suc k ..< nat (batch_size p)]"
    using assms(3) by (rule upt_split)
  have pre: "\<forall>i \<in> set [0 ..< k]. item_succeeds cfg (backend i)" using assms(1) by simp
  from batch_loop_failure[where backend = backend and k = k and pre = "[0 ..< k]"
      and post = "[Suc k ..< nat (batch_size p)]" and p = p and cfg = cfg
      and dims = "request_dimensions cfg p" and s = "resolve_seed p random_seed"
      and w = w and acc = "[]", OF pre assms(2) refl]
  obtain w' imgs where
    b: "batch_loop cfg backend p (request_dimensions cfg p) (resolve_seed p random_seed)
          ([0 ..< k] @ k # [Suc k ..< nat (batch_size p)]) w [] = (Some e, w', imgs)"
       "\<forall>i \<in> set [0 ..< k]. \<forall>name \<in> set (item_files cfg (backend i)).
               path_join (output_dir cfg) name \<in> dom (fs w')"
       "length (submitted w') \<le> length (submitted w) + length [0 ..< k] + 1"
    by blast
  have "run_generation cfg backend random_seed p w =
          (\<lparr>success = False, images = [], total_generated = 0,
            error = Some (case e of
                            ComfyUIUnavailableError m \<Rightarrow> m
                          | ComfyUIGenerationError m \<Rightarrow> m
                          | _ \<Rightarrow> type_name e @ '': '' @ str_exc e)\<rparr>, w')"
    using b(1) split generation_result_error[of e imgs] by (simp add: run_generation_def)
  then show ?thesis using b(2,3) by auto
qed

theorem failed_item_aborts_batch_witness:
  "\<exists>w'. run_generation example_settings second_item_fails 0 (example_params 2) empty_world =
            (\<lparr>success = False, images = [], total_generated = 0,
              error = Some (''ComfyUI no responde en http://127.0.0.1:8188. ''
                 @ ''Aseg'' @ [char_of (250::nat)] @ ''rate de iniciar ComfyUI con GPU: ''
                 @ ''ejecuta scripts/run_comfyui_gpu.ps1 (ver COMFYUI_SETUP.md).'')\<rparr>, w') \<and>
          ''/out/a.png'' \<in> dom (fs w') \<and> length (submitted w') \<le> 2"
proof -
  let ?msg = "''ComfyUI no responde en http://127.0.0.1:8188. ''
                 @ ''Aseg'' @ [char_of (250::nat)] @ ''rate de iniciar ComfyUI con GPU: ''
                 @ ''ejecuta scripts/run_comfyui_gpu.ps1 (ver COMFYUI_SETUP.md).''"
  have h1: "\<forall>i < 1. item_succeeds example_settings (second_item_fails i)"
    using item_succeeds_finished [of "[''a.png'']"] by (simp add: second_item_fails_def)
  have h2: "item_failure example_settings (second_item_fails 1) = Some (ComfyUIUnavailableError ?msg)"
    by (simp add: second_item_fails_def item_failure_def job_outcome_def
        client_generate_unavailable unavailable_msg_def rstrip_slash_def example_settings_def)
  have h3: "1 < nat (batch_size (example_params 2))" by (simp add: example_params_def)
  have files: "item_files example_settings (second_item_fails 0) = [''a.png'']"
    using item_files_finished [of "[''a.png'']"] by (simp add: second_item_fails_def)
  have path: "path_join (output_dir example_settings) ''a.png'' = ''/out/a.png''"
    by (simp add: path_join_def example_settings_def)
  from failed_item_aborts_batch [OF h1 h2 h3, of 0 empty_world]
  obtain w' where
    r: "run_generation example_settings second_item_fails 0 (example_params 2) empty_world =
            (\<lparr>success = False, images = [], total_generated = 0, error = Some ?msg\<rparr>, w')"
       "\<forall>i < 1. \<forall>name \<in> set (item_files example_settings (second_item_fails i)).
               path_join (output_dir example_settings) name \<in> dom (fs w')"
       "length (submitted w') \<le> length (submitted empty_world) + 1 + 1"
    by auto
  from r(2) files path have "''/out/a.png'' \<in> dom (fs w')" by simp
  moreover from r(3) have "length (submitted w') \<le> 2" by (simp add: empty_world_def)
  ultimately show ?thesis using r(1) by blast
qed

text \<open>
  Claim C6, as amended.  In a run in which every item of the batch completes, the items are
  processed in order, item \<open>i\<close> with the graph built for seed \<open>s + i\<close> and otherwise the
  same parameters; the result is a success with one record for each downloaded file, the
  records of item \<open>i\<close> carrying seed \<open>s + i\<close>.  When every job returns exactly one file,
  there are exactly \<open>b\<close> records, with seeds \<open>s, s + 1, ..., s + b - 1\<close> in order.
\<close>

theorem successful_batch_seeds:
  assumes "\<forall>i < nat (batch_size p). item_succeeds cfg (backend i)"
    and "run_generation cfg backend random_seed p w = (r, w')"
  shows "success r \<and> error r = None \<and> total_generated r = length (images r) \<and>
         map img_seed (images r) =
           concat (map (\<lambda>i. replicate (length (item_files cfg (backend i)))
                              (resolve_seed p random_seed + int i))
                    [0 ..< nat (batch_size p)]) \<and>
         submitted w' =
           submitted w @ map (item_workflow cfg p (resolve_seed p random_seed)) [0 ..< nat (batch_size p)] \<and>
         ((\<forall>i < nat (batch_size p). length (item_files cfg (backend i)) = 1) \<longrightarrow>
            map img_seed (images r) =
              map (\<lambda>i. resolve_seed p random_seed + int i) [0 ..< nat (batch_size p)] \<and>
            total_generated r = nat (batch_size p))"
proof -
  let ?idx = "[0 ..< nat (batch_size p)]"
  let ?s = "resolve_seed p random_seed"
  have ok: "\<forall>i \<in> set ?idx. item_succeeds cfg (backend i)" using assms(1) by simp
  from batch_loop_success[where backend = backend and idx = ?idx and p = p and cfg = cfg
      and dims = "request_dimensions cfg p" and s = ?s and w = w and acc = "[]", OF ok refl]
  obtain w2 new where
    b: "batch_loop cfg backend p (request_dimensions cfg p) ?s ?idx w [] = (None, w2, [] @ new)"
       "map img_seed new =
          concat (map (\<lambda>i. replicate (length (item_files cfg (backend i))) (?s + int i)) ?idx)"
       "submitted w2 = submitted w @ map (item_workflow cfg p ?s) ?idx"
    by blast
  have r: "r = \<lparr>success = True, images = new, total_generated = length new, error = None\<rparr>"
    and w': "w' = w2"
    using assms(2) b(1) by (simp_all add: run_generation_def)
  have one: "(\<forall>i < nat (batch_size p). length (item_files cfg (backend i)) = 1) \<longrightarrow>
      concat (map (\<lambda>i. replicate (length (item_files cfg (backend i))) (?s + int i)) ?idx) =
      map (\<lambda>i. ?s + int i) ?idx"
    using concat_replicate_one [of "[0 ..< nat (batch_size p)]"
        "\<lambda>i. length (item_files cfg (backend i))" "\<lambda>i. resolve_seed p random_seed + int i"]
    by simp
  have tot: "(\<forall>i < nat (batch_size p). length (item_files cfg (backend i)) = 1) \<longrightarrow>
      length new = nat (batch_size p)"
  proof
    assume "\<forall>i < nat (batch_size p). length (item_files cfg (backend i)) = 1"
    with one b(2) have "map img_seed new = map (\<lambda>i. ?s + int i) ?idx" by simp
    then have "length (map img_seed new) = length (map (\<lambda>i. ?s + int i) ?idx)" by simp
    then show "length new = nat (batch_size p)" by simp
  qed
  show ?thesis using r w' b(2,3) one tot by simp
qed


theorem successful_batch_seeds_witness:
  "map img_seed
     (images (fst (run_generation example_settings one_file_backend 0 (example_params 3) empty_world)))
     = [7, 8, 9] \<and>
   total_generated (fst (run_generation example_settings one_file_backend 0 (example_params 3) empty_world))
     = 3"
proof -
  have h1: "\<forall>i < nat (batch_size (example_params 3)). item_succeeds example_settings (one_file_backend i)"
    using item_succeeds_finished [of "[''a.png'']"] by (simp add: one_file_backend_def)
  have h2: "\<forall>i < nat (batch_size (example_params 3)).
      length (item_files example_settings (one_file_backend i)) = 1"
    using item_files_finished [of "[''a.png'']"] by (simp add: one_file_backend_def)
  have idx: "[0 ..< (3::nat)] = [0, 1, 2]"
    by (simp add: upt_rec)
  have s: "resolve_seed (example_params 3) 0 = 7"
    by (simp add: resolve_seed_def example_params_def)
  have b: "nat (batch_size (example_params 3)) = 3" by (simp add: example_params_def)
  from successful_batch_seeds [OF h1 surjective_pairing, of 0 empty_world] h2
  show ?thesis by (simp add: idx s b)
qed

lemma images_generation_result: "set (images (generation_result r imgs)) \<subseteq> set imgs"
proof (cases r)
  case None
  then show ?thesis by simp
next
  case (Some e)
  then show ?thesis by (cases e) simp_all
qed

text \<open>
  Claim C10.  \<open>build_flux_workflow\<close> returns the same node graph for every value of its
  \<open>output_format\<close> argument, all other arguments being equal: the format does not enter the
  job that is submitted.  The \<open>format\<close> field of every record in the result of
  \<open>run_generation\<close> is the format of the request.
\<close>

theorem output_format_not_in_workflow:
  "build_flux_workflow pr ng wd ht st gd sd ck fmt1 = build_flux_workflow pr ng wd ht st gd sd ck fmt2 \<and>
   (\<forall>img \<in> set (images (fst (run_generation cfg backend random_seed p w))).
       format img = format_value (output_format p))"
proof
  show "build_flux_workflow pr ng wd ht st gd sd ck fmt1 = build_flux_workflow pr ng wd ht st gd sd ck fmt2"
    by (simp add: build_flux_workflow_def)
next
  obtain r w1 imgs where
    b: "batch_loop cfg backend p (request_dimensions cfg p) (resolve_seed p random_seed)
          [0 ..< nat (batch_size p)] w [] = (r, w1, imgs)"
    by (cases "batch_loop cfg backend p (request_dimensions cfg p) (resolve_seed p random_seed)
          [0 ..< nat (batch_size p)] w []") auto
  from batch_loop_general[OF b]
  have "\<forall>img \<in> set imgs. format img = format_value (output_format p)" by auto
  moreover have "images (fst (run_generation cfg backend random_seed p w)) =
      images (generation_result r imgs)"
    using b by (simp add: run_generation_def)
  ultimately show "\<forall>img \<in> set (images (fst (run_generation cfg backend random_seed p w))).
       format img = format_value (output_format p)"
    using images_generation_result[of r imgs] by auto
qed

theorem output_format_not_in_workflow_witness:
  "build_flux_workflow ''apple'' ''blurry'' 2048 2048 8 4 7 ''flux'' ''png'' =
     build_flux_workflow ''apple'' ''blurry'' 2048 2048 8 4 7 ''flux'' ''webp'' \<and>
   map format
     (images (fst (run_generation example_settings one_file_backend 0 (example_params 1) empty_world)))
     = [''webp'']"
  using output_format_not_in_workflow [of "''apple''" "''blurry''" 2048 2048 8 4 7 "''flux''"
      "''png''" "''webp''" example_settings one_file_backend 0 "example_params 1" empty_world]
  by (simp add: run_generation_def example_params_def one_file_backend_def upt_rec
      client_generate_finished view_finished download_image_ok resolve_seed_def Let_def)


section \<open>The lazily loaded model\<close>

lemma get_model_unfold:
  "get_model env g =
     (case thread_step env Entry g of (c1, g1) \<Rightarrow>
      case thread_step env c1 g1 of (c2, g2) \<Rightarrow>
      case thread_step env c2 g2 of (c3, g3) \<Rightarrow>
      case thread_step env c3 g3 of (c4, g4) \<Rightarrow>
      thread_step env c4 g4)"
  by (simp add: get_model_def eval_nat_numeral split: prod.splits)

lemma get_model_cached_hit:
  "g_model g = Some m \<Longrightarrow> get_model env g = (Returned (Some m), g)"
  by (simp add: get_model_unfold)

text \<open>For callers that run one after the other \<open>get_model\<close> is a lazy singleton: a first
  call that returns a model has loaded it in exactly one call of \<open>from_pretrained\<close> and
  stored it, and once a call has returned a model, every later call returns that same cached
  model and leaves the globals as they are.\<close>

lemma get_model_first_load:
  assumes "g_model g = None" and "get_model env g = (Returned (Some m), g')"
  shows "from_pretrained env (choose_device env) (loads g) = Inr m \<and>
         g_model g' = Some m \<and> loads g' = loads g + 1"
  using assms
  by (auto simp: get_model_unfold split: option.splits if_splits sum.splits)

lemma get_model_loads_once_sequentially:
  assumes "get_model env g = (Returned (Some m), g')"
  shows "get_model env g' = (Returned (Some m), g') \<and> g_model g' = Some m \<and> loads g' \<le> loads g + 1"
proof -
  have "g_model g' = Some m \<and> loads g' \<le> loads g + 1"
    using assms
    by (auto simp: get_model_unfold split: option.splits if_splits sum.splits)
  then show ?thesis using get_model_cached_hit by simp
qed

lemma get_model_example:
  "get_model example_tts_env fresh_globals =
     (Returned (Some 0), \<lparr>g_model = Some 0, g_languages = True, loads = 1\<rparr>)"
  by (simp add: get_model_unfold example_tts_env_def fresh_globals_def)

text \<open>
  Claim C9.  The claim asks that the model be loaded at most once per process, the first
  initialisation being guarded so that concurrent first callers never load twice; the
  docstring of \<open>get_model\<close> says the model is loaded once only.  The body takes no lock:
  of two first callers (two requests run on threads of the executor at the start of the
  process) that both test \<open>_model\<close> before either has assigned it, both call
  \<open>from_pretrained\<close>.  In this schedule the model is loaded twice, and the model the first
  caller built is replaced by the second one's.
\<close>

theorem concurrent_first_callers_load_twice:
  "run_schedule example_tts_env [0, 1, 0, 1, 0, 1, 0, 1, 0, 1] (fresh_globals, [Entry, Entry]) =
     (\<lparr>g_model = Some 1, g_languages = True, loads = 2\<rparr>, [Returned (Some 1), Returned (Some 1)])"
  by (simp add: example_tts_env_def fresh_globals_def)

text \<open>The same two callers one after the other load once.\<close>

lemma sequential_callers_load_once:
  "run_schedule example_tts_env [0, 0, 0, 0, 0, 1, 1, 1, 1, 1] (fresh_globals, [Entry, Entry]) =
     (\<lparr>g_model = Some 0, g_languages = True, loads = 1\<rparr>, [Returned (Some 0), Returned (Some 0)])"
  by (simp add: example_tts_env_def fresh_globals_def)


section \<open>The REST adapters\<close>

lemma strip_long_description: "strip long_description = long_description"
  by (simp add: strip_def long_description_def isspace_def)

lemma take_long_description: "take 2000 long_description = CHR ''a'' # replicate 1999 (CHR '' '')"
  by (simp add: long_description_def)

lemma dropWhile_replicate_append:
  "P x \<Longrightarrow> dropWhile P (replicate n x @ ys) = dropWhile P ys"
  by (induction n) simp_all

lemma strip_whitespace_truncated:
  "strip_whitespace (CHR ''a'' # replicate 1999 (CHR '' '')) = ''a''"
proof -
  have sp: "is_white_space (CHR '' '')" by (simp add: is_white_space_def)
  have a: "\<not> is_white_space (CHR ''a'')" by (simp add: is_white_space_def)
  have "dropWhile is_white_space (replicate 1999 (CHR '' '') @ ''a'') = ''a''"
    using a sp dropWhile_replicate_append [of is_white_space "CHR '' ''" 1999 "''a''"] by simp
  then show ?thesis using a by (simp add: strip_whitespace_def)
qed

lemma str_or_long_description: "str_or (Some long_description) None [] = long_description"
  by (simp add: str_or_def long_description_def)

lemma length_long_description: "length long_description = 2001"
  by (simp add: long_description_def)

text \<open>
  Claim C7.  The image handler cuts an over-long description to its first 2000 characters and
  passes it to \<open>GenerateImageInput\<close>, which strips it again and checks the minimum length.
  For the description made of an \<open>a\<close>, 1999 spaces and a \<open>b\<close> the cut text strips to one
  character, the model's validation raises, and the exception leaves the handler uncaught:
  the over-long request is not accepted, and the orchestrator is not reached.
\<close>

theorem truncated_prompt_is_rejected:
  "image_generate cfg backend random_seed (Some long_body) w = (Unhandled (ValidationError ''prompt''), w)"
  by (simp add: image_generate_def long_body_def str_or_long_description strip_long_description
      length_long_description take_long_description image_request_fields_def
      validate_GenerateImageInput_def strip_whitespace_truncated Let_def)

lemma image_rejects_short_text:
  "length (strip (str_or (b_description body) (b_prompt body) [])) < 3 \<Longrightarrow>
   image_generate cfg backend random_seed (Some body) w = (Response 400 (ErrorJson image_min_msg), w)"
  by (simp add: image_generate_def Let_def)

lemma image_accepts_valid_text:
  "3 \<le> length (strip (str_or (b_description body) (b_prompt body) [])) \<Longrightarrow>
   validate_GenerateImageInput
      (image_request_fields (strip (str_or (b_description body) (b_prompt body) [])) body) = Inr params \<Longrightarrow>
   prompt params = strip_whitespace (take 2000 (strip (str_or (b_description body) (b_prompt body) []))) \<and>
   image_generate cfg backend random_seed (Some body) w =
     (Response 200 (ResultJson (fst (run_generation cfg backend random_seed params w))),
      snd (run_generation cfg backend random_seed params w))"
  by (auto simp: image_generate_def Let_def validate_GenerateImageInput_def image_request_fields_def
      split: if_splits prod.splits)

lemma audio_rejects_empty_text:
  "length (strip (str_or (a_text body) (a_prompt body) [])) < 1 \<Longrightarrow>
   audio_generate synth (Some body) calls = (Response 400 (audio_error_json audio_min_msg), calls)"
  by (simp add: audio_generate_def Let_def)

lemma audio_generate_accepted:
  assumes "1 \<le> length (strip (str_or (a_text body) (a_prompt body) []))"
  shows "audio_generate synth (Some body) calls =
     (case synth body (take 5000 (strip (str_or (a_text body) (a_prompt body) []))) of
        Inl e \<Rightarrow> (Response 200 (audio_error_json (str_exc e)), calls + 1)
      | Inr out \<Rightarrow>
          (Response 200
             \<lparr>au_success = True, au_filename = Some (path_name (wav_path out)),
              au_audio_path = Some (wav_path out),
              au_text_length =
                Some (length (take 5000 (strip (str_or (a_text body) (a_prompt body) [])))),
              au_audio = Some (wav_bytes out), au_error = None\<rparr>,
           calls + 1))"
proof -
  let ?t = "strip (str_or (a_text body) (a_prompt body) [])"
  have ne: "\<not> length ?t < 1" using assms by linarith
  have cut: "(if 5000 < length ?t then take 5000 ?t else ?t) = take 5000 ?t" by simp
  show ?thesis
    unfolding audio_generate_def Let_def option.case if_not_P[OF ne] cut ..
qed

lemma audio_truncates_long_text:
  "5000 < length (strip (str_or (a_text body) (a_prompt body) [])) \<Longrightarrow>
   synth body (take 5000 (strip (str_or (a_text body) (a_prompt body) []))) = Inr out \<Longrightarrow>
   audio_generate synth (Some body) calls =
     (Response 200
        \<lparr>au_success = True, au_filename = Some (path_name (wav_path out)),
         au_audio_path = Some (wav_path out), au_text_length = Some 5000,
         au_audio = Some (wav_bytes out), au_error = None\<rparr>,
      calls + 1)"
  by (simp add: audio_generate_accepted)

text \<open>
  Claim C8.  For a \<open>POST /generate\<close> request that passes the adapter's validation, a failure
  of the generation is answered with status 200 and a body with \<open>success = false\<close> and an
  error message.  Image: whatever exception the batch raises (backend unavailable, job failure
  or time-out, or any other exception, whose message is prefixed with its type name).  Audio:
  whatever exception \<open>generate_audio\<close> raises.
\<close>

theorem generation_failures_are_http_200:
  "(3 \<le> length (strip (str_or (b_description body) (b_prompt body) [])) \<longrightarrow>
    validate_GenerateImageInput
      (image_request_fields (strip (str_or (b_description body) (b_prompt body) [])) body) = Inr params \<longrightarrow>
    batch_loop cfg backend params (request_dimensions cfg params) (resolve_seed params random_seed)
      [0 ..< nat (batch_size params)] w [] = (Some e, w1, imgs) \<longrightarrow>
    image_generate cfg backend random_seed (Some body) w =
      (Response 200 (ResultJson
         \<lparr>success = False, images = [], total_generated = 0,
          error = Some (case e of
                          ComfyUIUnavailableError m \<Rightarrow> m
                        | ComfyUIGenerationError m \<Rightarrow> m
                        | _ \<Rightarrow> type_name e @ '': '' @ str_exc e)\<rparr>), w1)) \<and>
   (1 \<le> length (strip (str_or (a_text abody) (a_prompt abody) [])) \<longrightarrow>
    synth abody (take 5000 (strip (str_or (a_text abody) (a_prompt abody) []))) = Inl e' \<longrightarrow>
    audio_generate synth (Some abody) calls =
      (Response 200
         \<lparr>au_success = False, au_filename = None, au_audio_path = None, au_text_length = None,
          au_audio = None, au_error = Some (str_exc e')\<rparr>, calls + 1))"
proof (intro conjI impI)
  assume "3 \<le> length (strip (str_or (b_description body) (b_prompt body) []))"
    and "validate_GenerateImageInput
      (image_request_fields (strip (str_or (b_description body) (b_prompt body) [])) body) = Inr params"
    and "batch_loop cfg backend params (request_dimensions cfg params) (resolve_seed params random_seed)
      [0 ..< nat (batch_size params)] w [] = (Some e, w1, imgs)"
  then show "image_generate cfg backend random_seed (Some body) w =
      (Response 200 (ResultJson
         \<lparr>success = False, images = [], total_generated = 0,
          error = Some (case e of
                          ComfyUIUnavailableError m \<Rightarrow> m
                        | ComfyUIGenerationError m \<Rightarrow> m
                        | _ \<Rightarrow> type_name e @ '': '' @ str_exc e)\<rparr>), w1)"
    by (cases e) (simp_all add: image_generate_def Let_def run_generation_def)
next
  assume "1 \<le> length (strip (str_or (a_text abody) (a_prompt abody) []))"
    and "synth abody (take 5000 (strip (str_or (a_text abody) (a_prompt abody) []))) = Inl e'"
  then show "audio_generate synth (Some abody) calls =
      (Response 200
         \<lparr>au_success = False, au_filename = None, au_audio_path = None, au_text_length = None,
          au_audio = None, au_error = Some (str_exc e')\<rparr>, calls + 1)"
    by (simp add: audio_generate_accepted audio_error_json_def)
qed

lemma strip_apple:
  "strip (str_or (b_description apple_body) (b_prompt apple_body) []) = ''A red apple on a white table''"
  by (simp add: apple_body_def str_or_def strip_def isspace_def)

lemma validate_apple:
  "validate_GenerateImageInput (image_request_fields ''A red apple on a white table'' apple_body)
     = Inr apple_params"
  by (simp add: validate_GenerateImageInput_def image_request_fields_def apple_body_def
      apple_params_def strip_whitespace_def is_white_space_def default_negative_prompt_def
      parse_AspectRatio_def strip_def isspace_def opt_in_range_def Let_def)

lemma batch_unavailable:
  "batch_loop example_settings unavailable_backend apple_params
     (request_dimensions example_settings apple_params) (resolve_seed apple_params 0)
     [0 ..< nat (batch_size apple_params)] empty_world [] =
   (Some (ComfyUIUnavailableError (unavailable_msg ''http://127.0.0.1:8188'')),
    empty_world\<lparr>requests := 1\<rparr>, [])"
  by (simp add: apple_params_def upt_rec client_generate_unavailable unavailable_backend_def
      example_settings_def empty_world_def Let_def)

lemma strip_hello:
  "strip (str_or (a_text hello_body) (a_prompt hello_body) []) = ''hola''"
  by (simp add: hello_body_def str_or_def strip_def isspace_def)

theorem generation_failures_are_http_200_witness:
  "image_generate example_settings unavailable_backend 0 (Some apple_body) empty_world =
     (Response 200 (ResultJson
        \<lparr>success = False, images = [], total_generated = 0,
         error = Some (unavailable_msg ''http://127.0.0.1:8188'')\<rparr>),
      empty_world\<lparr>requests := 1\<rparr>) \<and>
   audio_generate failing_synth (Some hello_body) 0 =
     (Response 200
        \<lparr>au_success = False, au_filename = None, au_audio_path = None, au_text_length = None,
         au_audio = None, au_error = Some ''model not loaded''\<rparr>, 1)"
  using generation_failures_are_http_200 [of apple_body apple_params example_settings
      unavailable_backend 0 empty_world
      "ComfyUIUnavailableError (unavailable_msg ''http://127.0.0.1:8188'')"
      "empty_world\<lparr>requests := 1\<rparr>" "[]" hello_body failing_synth
      "OtherException ''RuntimeError'' ''model not loaded''" 0]
  by (simp add: strip_apple validate_apple batch_unavailable strip_hello failing_synth_def)

end
